theory Spec2Isabelle
  imports Main "HOL-Library.Word"
begin

unbundle bit_operations_syntax

section \<open>Constants of the system headers\<close>

text \<open>
  \<^verbatim>\<open>libaudit.c\<close> returns \<^verbatim>\<open>-errno\<close> codes. The values below are those of the Linux
  headers the file includes (\<^verbatim>\<open>errno.h\<close>, \<^verbatim>\<open>sys/socket.h\<close>, \<^verbatim>\<open>linux/netlink.h\<close>,
  \<^verbatim>\<open>linux/audit.h\<close>). A C \<^verbatim>\<open>int\<close> that only carries such a code, a descriptor or a
  flag is an \<open>int\<close>; every fixed-width field is a word of that width.
\<close>

definition EINTR :: int where "EINTR = 4"
definition EBADF :: int where "EBADF = 9"
definition EAGAIN :: int where "EAGAIN = 11"
definition EINVAL :: int where "EINVAL = 22"
definition EFBIG :: int where "EFBIG = 27"
definition EBADE :: int where "EBADE = 52"
definition EPROTO :: int where "EPROTO = 71"

definition MSG_PEEK :: "32 word" where "MSG_PEEK = 2"
definition MSG_DONTWAIT :: "32 word" where "MSG_DONTWAIT = 64"

definition NLM_F_REQUEST :: "16 word" where "NLM_F_REQUEST = 1"
definition NLM_F_ACK :: "16 word" where "NLM_F_ACK = 4"

definition NLMSG_ERROR :: int where "NLMSG_ERROR = 2"
definition AUDIT_GET :: int where "AUDIT_GET = 1000"
definition AUDIT_SIGNAL_INFO :: int where "AUDIT_SIGNAL_INFO = 1010"
definition AUDIT_LIST_RULES :: int where "AUDIT_LIST_RULES = 1013"

text \<open>\<^verbatim>\<open>sizeof(struct nlmsghdr)\<close> and \<^verbatim>\<open>sizeof(struct sockaddr_nl)\<close>.\<close>

definition sizeof_nlmsghdr :: nat where "sizeof_nlmsghdr = 16"
definition sizeof_sockaddr_nl :: nat where "sizeof_sockaddr_nl = 12"

section \<open>The netlink framing macros\<close>

text \<open>
  \<^verbatim>\<open>NLMSG_ALIGNTO\<close> is \<^verbatim>\<open>4U\<close>, so the macros compute in 32-bit unsigned arithmetic
  and wrap around with it.
\<close>

definition NLMSG_ALIGNTO :: "32 word" where "NLMSG_ALIGNTO = 4"

definition NLMSG_ALIGN :: "32 word \<Rightarrow> 32 word" where
  "NLMSG_ALIGN len = (len + NLMSG_ALIGNTO - 1) AND NOT (NLMSG_ALIGNTO - 1)"

definition NLMSG_HDRLEN :: "32 word" where
  "NLMSG_HDRLEN = NLMSG_ALIGN (of_nat sizeof_nlmsghdr)"

definition NLMSG_LENGTH :: "32 word \<Rightarrow> 32 word" where
  "NLMSG_LENGTH len = len + NLMSG_HDRLEN"

definition NLMSG_SPACE :: "32 word \<Rightarrow> 32 word" where
  "NLMSG_SPACE len = NLMSG_ALIGN (NLMSG_LENGTH len)"

record nlmsghdr =
  nlmsg_len :: "32 word"
  nlmsg_type :: "16 word"
  nlmsg_flags :: "16 word"
  nlmsg_seq :: "32 word"
  nlmsg_pid :: "32 word"

text \<open>
  \<^verbatim>\<open>NLMSG_OK(nlh, len)\<close>: \<open>len\<close> is the byte count of a receive that succeeded, which
  is never negative (the doc comment of \<^verbatim>\<open>set_internal_fields\<close> requires it and its
  only caller leaves the receive loop with \<^verbatim>\<open>len >= 0\<close>), hence a \<open>nat\<close>.
\<close>

definition NLMSG_OK :: "nlmsghdr \<Rightarrow> nat \<Rightarrow> bool" where
  "NLMSG_OK nlh len \<longleftrightarrow>
     sizeof_nlmsghdr \<le> len \<and> sizeof_nlmsghdr \<le> unat (nlmsg_len nlh) \<and> unat (nlmsg_len nlh) \<le> len"

section \<open>What \<^verbatim>\<open>libaudit.h\<close> declares\<close>

text \<open>
  The header \<^verbatim>\<open>libaudit.h\<close> is not among the sources. Its two enumerations are the
  datatypes below, with the constants \<^verbatim>\<open>libaudit.c\<close> names; \<open>WAIT_YES\<close> stands for
  every wait mode other than \<^verbatim>\<open>WAIT_NO\<close>. The constants and the one structure layout
  that \<^verbatim>\<open>libaudit.c\<close> takes from the header are the fields of a record that every
  function receives, so that each result holds for whatever the header defines.
  \<^item> \<open>MAX_AUDIT_MESSAGE_LENGTH\<close>: an \<^verbatim>\<open>int\<close> constant (so below \<open>2 ^ 31\<close>, which the
    results on transmission assume), the size of the \<^verbatim>\<open>data\<close> array of
    \<^verbatim>\<open>struct audit_message\<close>, which follows its \<^verbatim>\<open>struct nlmsghdr nlh\<close>;
  \<^item> \<open>sizeof_audit_message\<close>: \<^verbatim>\<open>sizeof(struct audit_message)\<close>, the capacity of the
    receive buffer \<^verbatim>\<open>rep->msg\<close>;
  \<^item> \<open>AUDIT_LOGSPLIT_OFF\<close>, \<open>AUDIT_LOGSPLIT_ON\<close>, \<open>AUDIT_LOGSPLIT_SET\<close>;
  \<^item> \<open>logsplit_status_bytes\<close>: the bytes of a zeroed
    \<^verbatim>\<open>struct audit_logsplit_status\<close> whose \<^verbatim>\<open>enabled\<close> field has been assigned.
\<close>

datatype reply_t = GET_REPLY_BLOCKING | GET_REPLY_NONBLOCKING

datatype rep_wait_t = WAIT_NO | WAIT_YES

record libaudit_h =
  MAX_AUDIT_MESSAGE_LENGTH :: nat
  sizeof_audit_message :: nat
  AUDIT_LOGSPLIT_OFF :: int
  AUDIT_LOGSPLIT_ON :: int
  AUDIT_LOGSPLIT_SET :: int
  logsplit_status_bytes :: "int \<Rightarrow> 8 word list"

section \<open>The socket and the process state\<close>

text \<open>
  The kernel side of the socket is a script. \<open>tx_script\<close> holds the results of the next
  \<^verbatim>\<open>sendto\<close> calls: a failure with its \<^verbatim>\<open>errno\<close>, or the number of bytes the
  transport is ready to take. \<open>rx_queue\<close> holds what the next \<^verbatim>\<open>recvfrom\<close> calls
  meet: a failure with its \<^verbatim>\<open>errno\<close>, or a pending datagram. A datagram is described
  by what the program can read after the copy: its size, the header and the \<^verbatim>\<open>int\<close>
  at \<^verbatim>\<open>NLMSG_DATA\<close> (the \<^verbatim>\<open>error\<close> field of \<^verbatim>\<open>struct nlmsgerr\<close>) found in
  \<^verbatim>\<open>rep->msg\<close>, and the sender address the kernel reports.
\<close>

record audit_message =
  msg_nlh :: nlmsghdr
  msg_error :: "32 word"

record datagram =
  dg_size :: nat
  dg_msg :: audit_message
  dg_addrlen :: nat
  dg_pid :: "32 word"

datatype tx_result = Tx_fail int | Tx_take nat

datatype rx_event = Rx_fail int | Rx_dgram datagram

datatype syscall =
  Sendto int nlmsghdr "8 word list" "32 word"
  | Recvfrom int "32 word"

text \<open>
  \<open>sequence\<close> is the \<^verbatim>\<open>static int16_t sequence\<close> of \<^verbatim>\<open>audit_send\<close>; \<open>syscalls\<close>
  records every socket call made, oldest first. \<open>Sendto fd nlh payload len\<close> is a call
  that offered \<open>len\<close> bytes: the header \<open>nlh\<close> and then \<open>payload\<close>.
\<close>

record world =
  sequence :: "16 word"
  tx_script :: "tx_result list"
  rx_queue :: "rx_event list"
  syscalls :: "syscall list"

text \<open>
  A call returns, or never returns because the kernel never completes a socket call
  (the script has run out), or leaves what C defines (\<^verbatim>\<open>memcpy\<close> past an object).
\<close>

datatype 'a outcome = Returns 'a world | Blocks world | Undefined

datatype send_result = Send_fail int | Send_ok nat | Send_blocks

datatype recv_result = Recv_fail int | Recv_ok datagram | Recv_blocks

definition sendto :: "world \<Rightarrow> int \<Rightarrow> nlmsghdr \<Rightarrow> 8 word list \<Rightarrow> 32 word \<Rightarrow> send_result \<times> world" where
  "sendto w fd nlh payload len =
     (let w1 = w\<lparr>syscalls := syscalls w @ [Sendto fd nlh payload len]\<rparr> in
        (case tx_script w of
           [] \<Rightarrow> (Send_blocks, w1)
         | Tx_fail e # rs \<Rightarrow> (Send_fail e, w1\<lparr>tx_script := rs\<rparr>)
         | Tx_take n # rs \<Rightarrow> (Send_ok (min n (unat len)), w1\<lparr>tx_script := rs\<rparr>)))"

definition recvfrom :: "world \<Rightarrow> int \<Rightarrow> 32 word \<Rightarrow> recv_result \<times> world" where
  "recvfrom w fd flags =
     (let w1 = w\<lparr>syscalls := syscalls w @ [Recvfrom fd flags]\<rparr> in
        (case rx_queue w of
           [] \<Rightarrow> (if flags AND MSG_DONTWAIT \<noteq> 0 then (Recv_fail EAGAIN, w1) else (Recv_blocks, w1))
         | Rx_fail e # q \<Rightarrow> (Recv_fail e, w1\<lparr>rx_queue := q\<rparr>)
         | Rx_dgram d # q \<Rightarrow>
             (Recv_ok d, if flags AND MSG_PEEK \<noteq> 0 then w1 else w1\<lparr>rx_queue := q\<rparr>)))"

section \<open>\<^verbatim>\<open>set_internal_fields\<close>\<close>

text \<open>
  \<^verbatim>\<open>struct audit_reply\<close> has the \<^verbatim>\<open>int\<close> fields \<^verbatim>\<open>type\<close> and \<^verbatim>\<open>len\<close>, the
  pointer \<^verbatim>\<open>nlh\<close>, the buffer \<^verbatim>\<open>msg\<close> and an anonymous union of pointers.
  The union holds one pointer; \<open>rep_view\<close> says
  which member was assigned last (\<open>View_NULL\<close> after \<^verbatim>\<open>rep->status = NULL\<close>). Each
  of these pointers, and \<^verbatim>\<open>rep->nlh\<close>, points into \<^verbatim>\<open>rep->msg\<close>, so a read through
  them is a read of \<open>rep_msg\<close>.
\<close>

datatype reply_view =
  View_NULL | View_error | View_status | View_ruledata | View_signal_info | View_message

record audit_reply =
  rep_type :: int
  rep_len :: int
  rep_msg :: audit_message
  rep_view :: reply_view

definition set_internal_fields :: "libaudit_h \<Rightarrow> audit_reply \<Rightarrow> nat \<Rightarrow> int \<times> audit_reply" where
  "set_internal_fields h rep len =
     (let rep1 = rep\<lparr>rep_view := View_NULL,
                     rep_len := sint (nlmsg_len (msg_nlh (rep_msg rep))),
                     rep_type := uint (nlmsg_type (msg_nlh (rep_msg rep)))\<rparr> in
      if \<not> NLMSG_OK (msg_nlh (rep_msg rep1)) len then
        ((if len = sizeof_audit_message h then - EFBIG else - EBADE), rep1)
      else if rep_type rep1 = NLMSG_ERROR then (0, rep1\<lparr>rep_view := View_error\<rparr>)
      else if rep_type rep1 = AUDIT_GET then (0, rep1\<lparr>rep_view := View_status\<rparr>)
      else if rep_type rep1 = AUDIT_LIST_RULES then (0, rep1\<lparr>rep_view := View_ruledata\<rparr>)
      else if rep_type rep1 = AUDIT_SIGNAL_INFO then (0, rep1\<lparr>rep_view := View_signal_info\<rparr>)
      else (0, rep1\<lparr>rep_view := View_message\<rparr>))"

section \<open>\<^verbatim>\<open>audit_get_reply\<close>\<close>

text \<open>
  The \<^verbatim>\<open>do ... while (len < 0)\<close> loop: one \<^verbatim>\<open>recvfrom\<close> per round; it leaves the
  function with a return code, or ends with the datagram received.
\<close>

datatype recv_exit = Exit_return int | Exit_received datagram

function recv_loop :: "int \<Rightarrow> reply_t \<Rightarrow> 32 word \<Rightarrow> world \<Rightarrow> recv_exit outcome" where
  "recv_loop fd block flags w =
     (case recvfrom w fd flags of
        (Recv_blocks, w') \<Rightarrow> Blocks w'
      | (Recv_fail e, w') \<Rightarrow>
          (if e \<noteq> EINTR then
             (if block = GET_REPLY_NONBLOCKING \<and> e = EAGAIN then Returns (Exit_return 0) w'
              else Returns (Exit_return (- e)) w')
           else recv_loop fd block flags w')
      | (Recv_ok d, w') \<Rightarrow> Returns (Exit_received d) w')"
  by pat_completeness auto
termination
proof (relation "measure (\<lambda>(fd, block, flags, w). length (rx_queue w))")
  show "wf (measure (\<lambda>(fd, block, flags, w). length (rx_queue w)))" by simp
next
  fix fd :: int and block :: reply_t and flags :: "32 word" and w x y e
  assume "(x, y) = recvfrom w fd flags" "x = Recv_fail e" "\<not> e \<noteq> EINTR"
  then show "((fd, block, flags, y), (fd, block, flags, w))
               \<in> measure (\<lambda>(fd, block, flags, w). length (rx_queue w))"
    by (auto simp: recvfrom_def Let_def EINTR_def EAGAIN_def
             split: list.splits rx_event.splits if_splits)
qed

definition audit_get_reply ::
  "libaudit_h \<Rightarrow> int \<Rightarrow> audit_reply \<Rightarrow> reply_t \<Rightarrow> 32 word \<Rightarrow> world \<Rightarrow> (int \<times> audit_reply) outcome" where
  "audit_get_reply h fd rep block peek w =
     (if fd < 0 then Returns (- EBADF, rep) w
      else
        (let flags = (if block = GET_REPLY_NONBLOCKING then MSG_DONTWAIT else 0) OR peek in
           (case recv_loop fd block flags w of
              Undefined \<Rightarrow> Undefined
            | Blocks w' \<Rightarrow> Blocks w'
            | Returns (Exit_return rc) w' \<Rightarrow> Returns (rc, rep) w'
            | Returns (Exit_received d) w' \<Rightarrow>
                (let len = min (dg_size d) (sizeof_audit_message h);
                     rep1 = rep\<lparr>rep_msg := dg_msg d\<rparr>
                 in
                   if dg_addrlen d \<noteq> sizeof_sockaddr_nl then Returns (- EPROTO, rep1) w'
                   else if dg_pid d \<noteq> 0 then Returns (- EINVAL, rep1) w'
                   else Returns (set_internal_fields h rep1 len) w'))))"

section \<open>\<^verbatim>\<open>get_ack\<close>\<close>

text \<open>
  \<^verbatim>\<open>struct audit_reply rep\<close> is an automatic variable without initialiser. Every
  field that \<^verbatim>\<open>get_ack\<close> and the two control operations read has been written by
  \<^verbatim>\<open>audit_get_reply\<close> before; the model starts it zeroed. The warning that
  \<^verbatim>\<open>get_ack\<close> logs when the sequence numbers differ changes nothing and is left out,
  as is every other log call. \<^verbatim>\<open>-rep.error->error\<close> negates a 32-bit \<^verbatim>\<open>int\<close>.
\<close>

definition rep_uninit :: audit_reply where
  "rep_uninit =
     \<lparr>rep_type = 0, rep_len = 0,
      rep_msg = \<lparr>msg_nlh = \<lparr>nlmsg_len = 0, nlmsg_type = 0, nlmsg_flags = 0,
                            nlmsg_seq = 0, nlmsg_pid = 0\<rparr>,
                 msg_error = 0\<rparr>,
      rep_view = View_NULL\<rparr>"

definition get_ack :: "libaudit_h \<Rightarrow> int \<Rightarrow> 16 word \<Rightarrow> world \<Rightarrow> int outcome" where
  "get_ack h fd seq w =
     (if fd < 0 then Returns (- EINVAL) w
      else
        (case audit_get_reply h fd rep_uninit GET_REPLY_BLOCKING MSG_PEEK w of
           Undefined \<Rightarrow> Undefined
         | Blocks w1 \<Rightarrow> Blocks w1
         | Returns (rc, rep) w1 \<Rightarrow>
             (if rc < 0 then Returns rc w1
              else if rep_type rep = NLMSG_ERROR then
                (case audit_get_reply h fd rep GET_REPLY_BLOCKING 0 w1 of
                   Undefined \<Rightarrow> Undefined
                 | Blocks w2 \<Rightarrow> Blocks w2
                 | Returns (rc2, rep2) w2 \<Rightarrow>
                     (if msg_error (rep_msg rep2) \<noteq> 0
                      then Returns (sint (- msg_error (rep_msg rep2))) w2
                      else Returns 0 w2))
              else Returns 0 w1)))"

section \<open>\<^verbatim>\<open>audit_send\<close>\<close>

text \<open>
  \<^verbatim>\<open>data\<close> is \<open>None\<close> for a null pointer and otherwise the bytes of the object it
  points to. \<^verbatim>\<open>memcpy\<close> is defined when \<open>n\<close> bytes lie within both objects.
\<close>

definition memcpy :: "8 word list \<Rightarrow> 8 word list \<Rightarrow> nat \<Rightarrow> 8 word list option" where
  "memcpy dst src n =
     (if n \<le> length dst \<and> n \<le> length src then Some (take n src @ drop n dst) else None)"

text \<open>
  The \<^verbatim>\<open>do ... while (rc < 0 && errno == EINTR)\<close> loop. Each round offers the first
  \<^verbatim>\<open>nlmsg_len\<close> bytes of \<^verbatim>\<open>req\<close>: the header and what follows it in \<^verbatim>\<open>req.data\<close>.
\<close>

function sendto_loop :: "int \<Rightarrow> nlmsghdr \<Rightarrow> 8 word list \<Rightarrow> world \<Rightarrow> send_result outcome" where
  "sendto_loop fd nlh data w =
     (case sendto w fd nlh (take (unat (nlmsg_len nlh) - sizeof_nlmsghdr) data) (nlmsg_len nlh) of
        (Send_blocks, w') \<Rightarrow> Blocks w'
      | (Send_fail e, w') \<Rightarrow>
          (if e = EINTR then sendto_loop fd nlh data w' else Returns (Send_fail e) w')
      | (Send_ok n, w') \<Rightarrow> Returns (Send_ok n) w')"
  by pat_completeness auto
termination
proof (relation "measure (\<lambda>(fd, nlh, data, w). length (tx_script w))")
  show "wf (measure (\<lambda>(fd, nlh, data, w). length (tx_script w)))" by simp
next
  fix fd :: int and nlh :: nlmsghdr and data :: "8 word list" and w x y e
  assume "(x, y) = sendto w fd nlh (take (unat (nlmsg_len nlh) - sizeof_nlmsghdr) data) (nlmsg_len nlh)"
    "x = Send_fail e" "e = EINTR"
  then show "((fd, nlh, data, y), (fd, nlh, data, w))
               \<in> measure (\<lambda>(fd, nlh, data, w). length (tx_script w))"
    by (auto simp: sendto_def Let_def split: list.splits tx_result.splits)
qed

text \<open>
  The label \<^verbatim>\<open>out:\<close> of \<^verbatim>\<open>audit_send\<close>, and the function. \<^verbatim>\<open>++sequence\<close> on the
  \<^verbatim>\<open>int16_t\<close> counter wraps from 32767 to -32768 (the conversion back to 16 bits, as
  gcc and clang define it); the assignment to the unsigned 32-bit \<^verbatim>\<open>nlmsg_seq\<close>
  sign-extends it. The \<^verbatim>\<open>int\<close> that \<^verbatim>\<open>sendto\<close> returns is compared as
  \<^verbatim>\<open>uint32_t\<close>, hence reduced modulo \<open>2 ^ 32\<close>.
\<close>

definition audit_send_out :: "int \<Rightarrow> world \<Rightarrow> int outcome" where
  "audit_send_out rc w =
     Returns rc (if sequence w <s 0 then w\<lparr>sequence := 0\<rparr> else w)"

definition audit_send ::
  "libaudit_h \<Rightarrow> int \<Rightarrow> int \<Rightarrow> 8 word list option \<Rightarrow> 32 word \<Rightarrow> world \<Rightarrow> int outcome" where
  "audit_send h fd type data sz w =
     (let req_nlh = \<lparr>nlmsg_len = NLMSG_SPACE sz, nlmsg_type = word_of_int type,
                     nlmsg_flags = NLM_F_REQUEST OR NLM_F_ACK, nlmsg_seq = 0, nlmsg_pid = 0\<rparr>;
          req_data = replicate (MAX_AUDIT_MESSAGE_LENGTH h) (0 :: 8 word)
      in
        if fd < 0 then Returns (- EBADF) w
        else if NLMSG_SPACE sz > of_nat (MAX_AUDIT_MESSAGE_LENGTH h) then Returns (- EINVAL) w
        else
          (case (if sz \<noteq> 0 \<and> data \<noteq> None then memcpy req_data (the data) (unat sz)
                 else Some req_data) of
             None \<Rightarrow> Undefined
           | Some req_data1 \<Rightarrow>
               (let w1 = w\<lparr>sequence := sequence w + 1\<rparr>;
                    req_nlh1 = req_nlh\<lparr>nlmsg_seq := scast (sequence w1)\<rparr>
                in
                  (case sendto_loop fd req_nlh1 req_data1 w1 of
                     Undefined \<Rightarrow> Undefined
                   | Blocks w2 \<Rightarrow> Blocks w2
                   | Returns r w2 \<Rightarrow>
                       (let rc = (case r of Send_ok n \<Rightarrow> int n | _ \<Rightarrow> - 1);
                            errno = (case r of Send_fail e \<Rightarrow> e | _ \<Rightarrow> 0)
                        in
                          if (word_of_int rc :: 32 word) \<noteq> nlmsg_len req_nlh1
                          then audit_send_out (- EPROTO) w2
                          else if rc < 0 then audit_send_out (- errno) w2
                          else
                            (case get_ack h fd (sequence w2) w2 of
                               Undefined \<Rightarrow> Undefined
                             | Blocks w3 \<Rightarrow> Blocks w3
                             | Returns rc3 w3 \<Rightarrow>
                                 audit_send_out
                                   (if rc3 = 0 then sint (sequence w3) else rc3) w3))))))"

section \<open>\<^verbatim>\<open>audit_set_logsplit\<close>\<close>

definition audit_set_logsplit ::
  "libaudit_h \<Rightarrow> int \<Rightarrow> int \<Rightarrow> rep_wait_t \<Rightarrow> world \<Rightarrow> int outcome" where
  "audit_set_logsplit h fd enabled wmode w =
     (if enabled \<noteq> AUDIT_LOGSPLIT_OFF h \<and> enabled \<noteq> AUDIT_LOGSPLIT_ON h
      then Returns (- EINVAL) w
      else
        (case audit_send h fd (AUDIT_LOGSPLIT_SET h) (Some (logsplit_status_bytes h enabled))
                (of_nat (length (logsplit_status_bytes h enabled))) w of
           Undefined \<Rightarrow> Undefined
         | Blocks w1 \<Rightarrow> Blocks w1
         | Returns rc w1 \<Rightarrow>
             (if rc < 0 then Returns rc w1
              else if wmode \<noteq> WAIT_NO then
                (case audit_get_reply h fd rep_uninit GET_REPLY_NONBLOCKING 0 w1 of
                   Undefined \<Rightarrow> Undefined
                 | Blocks w2 \<Rightarrow> Blocks w2
                 | Returns r w2 \<Rightarrow> Returns 0 w2)
              else Returns 0 w1)))"

section \<open>Observing outcomes\<close>

fun final_world :: "'a outcome \<Rightarrow> world option" where
  "final_world (Returns a w) = Some w"
| "final_world (Blocks w) = Some w"
| "final_world Undefined = None"

fun returned :: "'a outcome \<Rightarrow> 'a option" where
  "returned (Returns a w) = Some a"
| "returned (Blocks w) = None"
| "returned Undefined = None"

text \<open>The \<^verbatim>\<open>sendto\<close> call of one round of the loop of \<^verbatim>\<open>audit_send\<close>.\<close>

definition sendto_call :: "int \<Rightarrow> nlmsghdr \<Rightarrow> 8 word list \<Rightarrow> syscall" where
  "sendto_call fd nlh data =
     Sendto fd nlh (take (unat (nlmsg_len nlh) - sizeof_nlmsghdr) data) (nlmsg_len nlh)"

text \<open>The flags \<^verbatim>\<open>audit_get_reply\<close> passes to \<^verbatim>\<open>recvfrom\<close>.\<close>

definition recv_flags :: "reply_t \<Rightarrow> 32 word \<Rightarrow> 32 word" where
  "recv_flags block peek = (if block = GET_REPLY_NONBLOCKING then MSG_DONTWAIT else 0) OR peek"

text \<open>
  The header and the \<^verbatim>\<open>data\<close> array of \<^verbatim>\<open>req\<close> when \<^verbatim>\<open>audit_send\<close> reaches its
  \<^verbatim>\<open>sendto\<close> loop with sequence number \<open>seq\<close>.
\<close>

definition request_header :: "int \<Rightarrow> 32 word \<Rightarrow> 16 word \<Rightarrow> nlmsghdr" where
  "request_header type sz seq =
     \<lparr>nlmsg_len = NLMSG_SPACE sz, nlmsg_type = word_of_int type,
      nlmsg_flags = NLM_F_REQUEST OR NLM_F_ACK, nlmsg_seq = scast seq, nlmsg_pid = 0\<rparr>"

definition request_data :: "libaudit_h \<Rightarrow> 8 word list option \<Rightarrow> 32 word \<Rightarrow> 8 word list" where
  "request_data h data sz =
     (if sz \<noteq> 0 \<and> data \<noteq> None
      then take (unat sz) (the data) @ replicate (MAX_AUDIT_MESSAGE_LENGTH h - unat sz) 0
      else replicate (MAX_AUDIT_MESSAGE_LENGTH h) 0)"

section \<open>Example inputs\<close>

text \<open>
  An instance of the header, with the message length of \<^verbatim>\<open>linux/audit.h\<close>, a
  structure of one 32-bit field for the log-split status, and stand-in values for the
  three log-split constants.
\<close>

definition h_example :: libaudit_h where
  "h_example =
     \<lparr>MAX_AUDIT_MESSAGE_LENGTH = 8970, sizeof_audit_message = 8988,
      AUDIT_LOGSPLIT_OFF = 0, AUDIT_LOGSPLIT_ON = 1, AUDIT_LOGSPLIT_SET = 1500,
      logsplit_status_bytes = (\<lambda>e. [word_of_int e, 0, 0, 0])\<rparr>"

text \<open>
  The acknowledgement the kernel sends for a request: type \<^verbatim>\<open>NLMSG_ERROR\<close>, a
  \<^verbatim>\<open>struct nlmsgerr\<close> as payload (36 bytes in all), from the kernel's address.
\<close>

definition netlink_ack :: "32 word \<Rightarrow> 32 word \<Rightarrow> datagram" where
  "netlink_ack seq err =
     \<lparr>dg_size = 36,
      dg_msg = \<lparr>msg_nlh = \<lparr>nlmsg_len = 36, nlmsg_type = 2, nlmsg_flags = 0,
                           nlmsg_seq = seq, nlmsg_pid = 0\<rparr>,
                msg_error = err\<rparr>,
      dg_addrlen = 12, dg_pid = 0\<rparr>"

definition world_of :: "16 word \<Rightarrow> tx_result list \<Rightarrow> rx_event list \<Rightarrow> world" where
  "world_of seq tx rx = \<lparr>sequence = seq, tx_script = tx, rx_queue = rx, syscalls = []\<rparr>"

text \<open>
  The reply structure as \<^verbatim>\<open>audit_get_reply\<close> leaves it after it has received
  \<open>netlink_ack 1 0\<close>.
\<close>

definition ack_reply :: audit_reply where
  "ack_reply =
     \<lparr>rep_type = 2, rep_len = 36, rep_msg = dg_msg (netlink_ack 1 0), rep_view = View_error\<rparr>"

text \<open>
  A datagram of 9000 bytes, more than the receive buffer of \<open>h_example\<close> holds, and
  one of 36 bytes whose header declares 100.
\<close>

definition oversized_dgram :: datagram where
  "oversized_dgram =
     \<lparr>dg_size = 9000,
      dg_msg = \<lparr>msg_nlh = \<lparr>nlmsg_len = 9000, nlmsg_type = 1300, nlmsg_flags = 0,
                           nlmsg_seq = 0, nlmsg_pid = 0\<rparr>,
                msg_error = 0\<rparr>,
      dg_addrlen = 12, dg_pid = 0\<rparr>"

definition truncated_dgram :: datagram where
  "truncated_dgram =
     \<lparr>dg_size = 36,
      dg_msg = \<lparr>msg_nlh = \<lparr>nlmsg_len = 100, nlmsg_type = 1300, nlmsg_flags = 0,
                           nlmsg_seq = 0, nlmsg_pid = 0\<rparr>,
                msg_error = 0\<rparr>,
      dg_addrlen = 12, dg_pid = 0\<rparr>"

section \<open>The loops, one round at a time\<close>

declare recv_loop.simps [simp del] sendto_loop.simps [simp del]

lemma sendto_loop_empty:
  "tx_script w = [] \<Longrightarrow>
   sendto_loop fd nlh data w = Blocks (w\<lparr>syscalls := syscalls w @ [sendto_call fd nlh data]\<rparr>)"
  by (subst sendto_loop.simps) (simp add: sendto_def sendto_call_def)

lemma sendto_loop_intr:
  "tx_script w = Tx_fail EINTR # rs \<Longrightarrow>
   sendto_loop fd nlh data w =
   sendto_loop fd nlh data (w\<lparr>syscalls := syscalls w @ [sendto_call fd nlh data], tx_script := rs\<rparr>)"
  by (subst sendto_loop.simps) (simp add: sendto_def sendto_call_def)

lemma sendto_loop_fail:
  "tx_script w = Tx_fail e # rs \<Longrightarrow> e \<noteq> EINTR \<Longrightarrow>
   sendto_loop fd nlh data w =
   Returns (Send_fail e) (w\<lparr>syscalls := syscalls w @ [sendto_call fd nlh data], tx_script := rs\<rparr>)"
  by (subst sendto_loop.simps) (simp add: sendto_def sendto_call_def)

lemma sendto_loop_take:
  "tx_script w = Tx_take n # rs \<Longrightarrow>
   sendto_loop fd nlh data w =
   Returns (Send_ok (min n (unat (nlmsg_len nlh))))
     (w\<lparr>syscalls := syscalls w @ [sendto_call fd nlh data], tx_script := rs\<rparr>)"
  by (subst sendto_loop.simps) (simp add: sendto_def sendto_call_def)

lemma sendto_loop_trace:
  "\<exists>w' rest. final_world (sendto_loop fd nlh data w) = Some w' \<and>
      syscalls w' = syscalls w @ sendto_call fd nlh data # rest \<and> sequence w' = sequence w
      \<and> rx_queue w' = rx_queue w"
proof (induction "tx_script w" arbitrary: w)
  case Nil
  then show ?case by (simp add: sendto_loop_empty)
next
  case (Cons r rs)
  show ?case
  proof (cases r)
    case (Tx_fail e)
    show ?thesis
    proof (cases "e = EINTR")
      case True
      let ?w1 = "w\<lparr>syscalls := syscalls w @ [sendto_call fd nlh data], tx_script := rs\<rparr>"
      have "rs = tx_script ?w1" by simp
      from Cons.hyps(1) [OF this] obtain w' rest where
        "final_world (sendto_loop fd nlh data ?w1) = Some w'"
        "syscalls w' = syscalls ?w1 @ sendto_call fd nlh data # rest"
        "sequence w' = sequence ?w1" "rx_queue w' = rx_queue ?w1"
        by blast
      moreover have "sendto_loop fd nlh data w = sendto_loop fd nlh data ?w1"
        using Cons.hyps(2) Tx_fail True by (simp add: sendto_loop_intr)
      ultimately show ?thesis by simp
    next
      case False
      with Cons.hyps(2) Tx_fail show ?thesis
        by (simp add: sendto_loop_fail [of w e rs])
    qed
  next
    case (Tx_take n)
    with Cons.hyps(2) show ?thesis
      by (simp add: sendto_loop_take [of w n rs])
  qed
qed

lemma recv_loop_empty_block:
  "rx_queue w = [] \<Longrightarrow> flags AND MSG_DONTWAIT = 0 \<Longrightarrow>
   recv_loop fd block flags w = Blocks (w\<lparr>syscalls := syscalls w @ [Recvfrom fd flags]\<rparr>)"
  by (subst recv_loop.simps) (simp add: recvfrom_def)

lemma recv_loop_empty_nonblock:
  "rx_queue w = [] \<Longrightarrow> flags AND MSG_DONTWAIT \<noteq> 0 \<Longrightarrow>
   recv_loop fd block flags w =
   Returns (Exit_return (if block = GET_REPLY_NONBLOCKING then 0 else - EAGAIN))
     (w\<lparr>syscalls := syscalls w @ [Recvfrom fd flags]\<rparr>)"
  by (subst recv_loop.simps) (simp add: recvfrom_def EAGAIN_def EINTR_def)

lemma recv_loop_intr:
  "rx_queue w = Rx_fail EINTR # q \<Longrightarrow>
   recv_loop fd block flags w =
   recv_loop fd block flags (w\<lparr>syscalls := syscalls w @ [Recvfrom fd flags], rx_queue := q\<rparr>)"
  by (subst recv_loop.simps) (simp add: recvfrom_def)

lemma recv_loop_fail:
  "rx_queue w = Rx_fail e # q \<Longrightarrow> e \<noteq> EINTR \<Longrightarrow>
   recv_loop fd block flags w =
   Returns (Exit_return (if block = GET_REPLY_NONBLOCKING \<and> e = EAGAIN then 0 else - e))
     (w\<lparr>syscalls := syscalls w @ [Recvfrom fd flags], rx_queue := q\<rparr>)"
  by (subst recv_loop.simps) (simp add: recvfrom_def)

lemma recv_loop_dgram:
  "rx_queue w = Rx_dgram d # q \<Longrightarrow>
   recv_loop fd block flags w =
   Returns (Exit_received d)
     (w\<lparr>syscalls := syscalls w @ [Recvfrom fd flags],
        rx_queue := (if flags AND MSG_PEEK \<noteq> 0 then Rx_dgram d # q else q)\<rparr>)"
  by (subst recv_loop.simps) (simp add: recvfrom_def)

lemma recv_loop_trace:
  "\<exists>w' rest. final_world (recv_loop fd block flags w) = Some w' \<and>
      syscalls w' = syscalls w @ rest \<and> sequence w' = sequence w"
proof (induction "rx_queue w" arbitrary: w)
  case Nil
  then show ?case
    by (cases "flags AND MSG_DONTWAIT = 0")
       (simp_all add: recv_loop_empty_block recv_loop_empty_nonblock)
next
  case (Cons r q)
  show ?case
  proof (cases r)
    case (Rx_fail e)
    show ?thesis
    proof (cases "e = EINTR")
      case True
      let ?w1 = "w\<lparr>syscalls := syscalls w @ [Recvfrom fd flags], rx_queue := q\<rparr>"
      have "q = rx_queue ?w1" by simp
      from Cons.hyps(1) [OF this] obtain w' rest where
        "final_world (recv_loop fd block flags ?w1) = Some w'"
        "syscalls w' = syscalls ?w1 @ rest" "sequence w' = sequence ?w1"
        by blast
      moreover have "recv_loop fd block flags w = recv_loop fd block flags ?w1"
        using Cons.hyps(2) Rx_fail True by (simp add: recv_loop_intr)
      ultimately show ?thesis by simp
    next
      case False
      with Cons.hyps(2) Rx_fail show ?thesis
        by (simp add: recv_loop_fail [of w e q])
    qed
  next
    case (Rx_dgram d)
    with Cons.hyps(2) show ?thesis
      by (simp add: recv_loop_dgram [of w d q])
  qed
qed

lemma audit_get_reply_trace:
  "\<exists>w' rest. final_world (audit_get_reply h fd rep block peek w) = Some w' \<and>
      syscalls w' = syscalls w @ rest \<and> sequence w' = sequence w"
proof (cases "fd < 0")
  case True
  then show ?thesis by (simp add: audit_get_reply_def)
next
  case False
  define flags where "flags = (if block = GET_REPLY_NONBLOCKING then MSG_DONTWAIT else 0) OR peek"
  obtain w' rest where *: "final_world (recv_loop fd block flags w) = Some w'"
    "syscalls w' = syscalls w @ rest" "sequence w' = sequence w"
    using recv_loop_trace by blast
  show ?thesis
  proof (cases "recv_loop fd block flags w")
    case (Returns x w1)
    with * have "w1 = w'" by simp
    with Returns * False show ?thesis
      by (cases x) (auto simp: audit_get_reply_def flags_def Let_def)
  next
    case (Blocks w1)
    with * False show ?thesis
      by (auto simp: audit_get_reply_def flags_def Let_def)
  next
    case Undefined
    with * show ?thesis by simp
  qed
qed

lemma get_ack_trace:
  "\<exists>w' rest. final_world (get_ack h fd seq w) = Some w' \<and>
      syscalls w' = syscalls w @ rest \<and> sequence w' = sequence w"
proof (cases "fd < 0")
  case True
  then show ?thesis by (simp add: get_ack_def)
next
  case False
  obtain w1 rest1 where 1: "final_world (audit_get_reply h fd rep_uninit GET_REPLY_BLOCKING MSG_PEEK w) = Some w1"
    "syscalls w1 = syscalls w @ rest1" "sequence w1 = sequence w"
    using audit_get_reply_trace by blast
  show ?thesis
  proof (cases "audit_get_reply h fd rep_uninit GET_REPLY_BLOCKING MSG_PEEK w")
    case (Returns x w1')
    obtain rc rep where x: "x = (rc, rep)" by (cases x)
    from Returns 1 have w1: "w1' = w1" by simp
    obtain w2 rest2 where 2: "final_world (audit_get_reply h fd rep GET_REPLY_BLOCKING 0 w1) = Some w2"
      "syscalls w2 = syscalls w1 @ rest2" "sequence w2 = sequence w1"
      using audit_get_reply_trace by blast
    show ?thesis
    proof (cases "audit_get_reply h fd rep GET_REPLY_BLOCKING 0 w1")
      case (Returns y w2')
      with 1 2 False x w1 \<open>audit_get_reply h fd rep_uninit GET_REPLY_BLOCKING MSG_PEEK w = Returns x w1'\<close>
      show ?thesis by (cases y) (auto simp: get_ack_def)
    next
      case (Blocks w2')
      with 1 2 False x w1 \<open>audit_get_reply h fd rep_uninit GET_REPLY_BLOCKING MSG_PEEK w = Returns x w1'\<close>
      show ?thesis by (auto simp: get_ack_def)
    next
      case Undefined
      with 2 show ?thesis by simp
    qed
  next
    case (Blocks w1')
    with 1 False show ?thesis by (auto simp: get_ack_def)
  next
    case Undefined
    with 1 show ?thesis by simp
  qed
qed

section \<open>\<^verbatim>\<open>audit_get_reply\<close>: what one call does\<close>

lemma recv_loop_interrupts:
  "rx_queue w = replicate n (Rx_fail EINTR) @ q \<Longrightarrow>
   recv_loop fd block flags w =
   recv_loop fd block flags
     (w\<lparr>syscalls := syscalls w @ replicate n (Recvfrom fd flags), rx_queue := q\<rparr>)"
proof (induction n arbitrary: w)
  case 0
  then have "w\<lparr>syscalls := syscalls w @ replicate 0 (Recvfrom fd flags), rx_queue := q\<rparr> = w"
    by (cases w) simp
  then show ?case by simp
next
  case (Suc n)
  let ?w1 = "w\<lparr>syscalls := syscalls w @ [Recvfrom fd flags],
                rx_queue := replicate n (Rx_fail EINTR) @ q\<rparr>"
  from Suc.prems have "recv_loop fd block flags w = recv_loop fd block flags ?w1"
    by (simp add: recv_loop_intr)
  also have "\<dots> = recv_loop fd block flags
     (?w1\<lparr>syscalls := syscalls ?w1 @ replicate n (Recvfrom fd flags), rx_queue := q\<rparr>)"
    by (rule Suc.IH) simp
  finally show ?case by (simp add: replicate_app_Cons_same)
qed

lemma audit_get_reply_interrupts:
  assumes "rx_queue w = replicate n (Rx_fail EINTR) @ q"
  shows "audit_get_reply h fd rep block peek w =
         (if fd < 0 then Returns (- EBADF, rep) w
          else audit_get_reply h fd rep block peek
            (w\<lparr>syscalls := syscalls w @ replicate n (Recvfrom fd (recv_flags block peek)),
               rx_queue := q\<rparr>))"
  using recv_loop_interrupts [OF assms, of fd block "recv_flags block peek"]
  by (simp add: audit_get_reply_def recv_flags_def)

lemma audit_get_reply_dgram:
  assumes "0 \<le> fd" and "rx_queue w = Rx_dgram d # q"
  shows "audit_get_reply h fd rep block peek w =
     Returns
       (if dg_addrlen d \<noteq> sizeof_sockaddr_nl then (- EPROTO, rep\<lparr>rep_msg := dg_msg d\<rparr>)
        else if dg_pid d \<noteq> 0 then (- EINVAL, rep\<lparr>rep_msg := dg_msg d\<rparr>)
        else set_internal_fields h (rep\<lparr>rep_msg := dg_msg d\<rparr>)
               (min (dg_size d) (sizeof_audit_message h)))
       (w\<lparr>syscalls := syscalls w @ [Recvfrom fd (recv_flags block peek)],
          rx_queue := (if recv_flags block peek AND MSG_PEEK \<noteq> 0 then Rx_dgram d # q else q)\<rparr>)"
  using assms recv_loop_dgram [OF assms(2), of fd block "recv_flags block peek"]
  by (simp add: audit_get_reply_def recv_flags_def Let_def)

lemma audit_get_reply_empty_nonblocking:
  assumes "0 \<le> fd" and "rx_queue w = []"
  shows "audit_get_reply h fd rep GET_REPLY_NONBLOCKING peek w =
     Returns (0, rep) (w\<lparr>syscalls := syscalls w @ [Recvfrom fd (MSG_DONTWAIT OR peek)]\<rparr>)"
proof -
  have "(MSG_DONTWAIT OR peek) AND MSG_DONTWAIT = MSG_DONTWAIT"
    by (rule bit_word_eqI) (auto simp: bit_simps)
  then have "(MSG_DONTWAIT OR peek) AND MSG_DONTWAIT \<noteq> 0"
    by (simp add: MSG_DONTWAIT_def)
  with assms show ?thesis
    by (simp add: audit_get_reply_def recv_loop_empty_nonblock)
qed

lemma recv_loop_nonblocking_returns:
  assumes "flags AND MSG_DONTWAIT \<noteq> 0"
  shows "recv_loop fd block flags w \<noteq> Blocks w'"
proof (induction "rx_queue w" arbitrary: w)
  case Nil
  with assms show ?case by (simp add: recv_loop_empty_nonblock)
next
  case (Cons r q)
  show ?case
  proof (cases r)
    case (Rx_fail e)
    show ?thesis
    proof (cases "e = EINTR")
      case True
      let ?w1 = "w\<lparr>syscalls := syscalls w @ [Recvfrom fd flags], rx_queue := q\<rparr>"
      have "q = rx_queue ?w1" by simp
      from Cons.hyps(1) [OF this] have "recv_loop fd block flags ?w1 \<noteq> Blocks w'" .
      moreover have "recv_loop fd block flags w = recv_loop fd block flags ?w1"
        using Cons.hyps(2) Rx_fail True by (simp add: recv_loop_intr)
      ultimately show ?thesis by simp
    next
      case False
      with Cons.hyps(2) Rx_fail show ?thesis
        by (simp add: recv_loop_fail [of w e q])
    qed
  next
    case (Rx_dgram d)
    with Cons.hyps(2) show ?thesis
      by (simp add: recv_loop_dgram [of w d q])
  qed
qed

lemma audit_get_reply_nonblocking_returns:
  "audit_get_reply h fd rep GET_REPLY_NONBLOCKING peek w \<noteq> Blocks w'"
proof -
  have "(MSG_DONTWAIT OR peek) AND MSG_DONTWAIT = MSG_DONTWAIT"
    by (rule bit_word_eqI) (auto simp: bit_simps)
  then have nz: "(MSG_DONTWAIT OR peek) AND MSG_DONTWAIT \<noteq> 0"
    by (simp add: MSG_DONTWAIT_def)
  show ?thesis
  proof (cases "recv_loop fd GET_REPLY_NONBLOCKING (MSG_DONTWAIT OR peek) w")
    case (Returns x w1)
    then show ?thesis
      by (cases x) (simp_all add: audit_get_reply_def Let_def)
  next
    case (Blocks w1)
    with recv_loop_nonblocking_returns [OF nz] show ?thesis by blast
  next
    case Undefined
    then show ?thesis by (simp add: audit_get_reply_def)
  qed
qed

lemma audit_get_reply_eval:
  "audit_get_reply h fd rep block peek w =
     (if fd < 0 then Returns (- EBADF, rep) w
      else case rx_queue w of
        [] \<Rightarrow> (if recv_flags block peek AND MSG_DONTWAIT = 0
               then Blocks (w\<lparr>syscalls := syscalls w @ [Recvfrom fd (recv_flags block peek)]\<rparr>)
               else Returns ((if block = GET_REPLY_NONBLOCKING then 0 else - EAGAIN), rep)
                      (w\<lparr>syscalls := syscalls w @ [Recvfrom fd (recv_flags block peek)]\<rparr>))
      | Rx_fail e # q \<Rightarrow>
          (if e = EINTR then audit_get_reply h fd rep block peek
                 (w\<lparr>syscalls := syscalls w @ [Recvfrom fd (recv_flags block peek)], rx_queue := q\<rparr>)
           else Returns ((if block = GET_REPLY_NONBLOCKING \<and> e = EAGAIN then 0 else - e), rep)
                 (w\<lparr>syscalls := syscalls w @ [Recvfrom fd (recv_flags block peek)], rx_queue := q\<rparr>))
      | Rx_dgram d # q \<Rightarrow>
          Returns
           (if dg_addrlen d \<noteq> sizeof_sockaddr_nl then (- EPROTO, rep\<lparr>rep_msg := dg_msg d\<rparr>)
            else if dg_pid d \<noteq> 0 then (- EINVAL, rep\<lparr>rep_msg := dg_msg d\<rparr>)
            else set_internal_fields h (rep\<lparr>rep_msg := dg_msg d\<rparr>)
                   (min (dg_size d) (sizeof_audit_message h)))
           (w\<lparr>syscalls := syscalls w @ [Recvfrom fd (recv_flags block peek)],
              rx_queue := (if recv_flags block peek AND MSG_PEEK \<noteq> 0 then Rx_dgram d # q else q)\<rparr>))"
proof (cases "fd < 0")
  case True
  then show ?thesis by (simp add: audit_get_reply_def)
next
  case False
  then have fd: "0 \<le> fd" by simp
  show ?thesis
  proof (cases "rx_queue w")
    case Nil
    with False show ?thesis
      by (simp add: audit_get_reply_def recv_flags_def [symmetric]
            recv_loop_empty_block recv_loop_empty_nonblock)
  next
    case (Cons r q)
    show ?thesis
    proof (cases r)
      case (Rx_fail e)
      with Cons False show ?thesis
        by (cases "e = EINTR")
           (simp_all add: audit_get_reply_def recv_flags_def [symmetric] Let_def
              recv_loop_intr [of w q] recv_loop_fail [of w e q])
    next
      case (Rx_dgram d)
      with Cons False audit_get_reply_dgram [OF fd, of w d q h rep block peek] show ?thesis
        by simp
    qed
  qed
qed

section \<open>\<^verbatim>\<open>audit_get_reply\<close>: the checks on a received datagram\<close>

text \<open>
  Claim C7. A datagram from the kernel's address (address length right, process id 0)
  whose header fails \<^verbatim>\<open>NLMSG_OK\<close> against the number of bytes received is rejected
  with a negative code: \<^verbatim>\<open>-EFBIG\<close> (too large) exactly when the bytes received fill
  the receive buffer \<^verbatim>\<open>rep->msg\<close>, that is when the datagram is at least as large as
  the buffer, and \<^verbatim>\<open>-EBADE\<close> (malformed) exactly when they do not. Interrupted
  attempts before the datagram, the blocking mode and the peek flag change nothing.
\<close>

theorem audit_get_reply_bad_frame:
  assumes "0 \<le> fd"
    and "rx_queue w = replicate n (Rx_fail EINTR) @ Rx_dgram d # q"
    and "dg_addrlen d = sizeof_sockaddr_nl" and "dg_pid d = 0"
    and "\<not> NLMSG_OK (msg_nlh (dg_msg d)) (min (dg_size d) (sizeof_audit_message h))"
  shows "\<exists>rc rep' w'.
           audit_get_reply h fd rep block peek w = Returns (rc, rep') w' \<and> rc < 0 \<and>
           (rc = - EFBIG \<longleftrightarrow> sizeof_audit_message h \<le> dg_size d) \<and>
           (rc = - EBADE \<longleftrightarrow> dg_size d < sizeof_audit_message h)"
proof -
  let ?w1 = "w\<lparr>syscalls := syscalls w @ replicate n (Recvfrom fd (recv_flags block peek)),
               rx_queue := Rx_dgram d # q\<rparr>"
  have q1: "rx_queue ?w1 = Rx_dgram d # q" by simp
  have "audit_get_reply h fd rep block peek w = audit_get_reply h fd rep block peek ?w1"
    using audit_get_reply_interrupts [OF assms(2)] assms(1) by simp
  also note audit_get_reply_dgram [OF assms(1) q1]
  finally show ?thesis
    using assms(3-5)
    by (auto simp: set_internal_fields_def Let_def EFBIG_def EBADE_def min_def)
qed

theorem audit_get_reply_bad_frame_witness:
  "((0 :: int) \<le> 3 \<and>
    rx_queue (world_of 0 [] [Rx_fail EINTR, Rx_dgram oversized_dgram])
      = replicate 1 (Rx_fail EINTR) @ Rx_dgram oversized_dgram # [] \<and>
    dg_addrlen oversized_dgram = sizeof_sockaddr_nl \<and> dg_pid oversized_dgram = 0 \<and>
    \<not> NLMSG_OK (msg_nlh (dg_msg oversized_dgram))
          (min (dg_size oversized_dgram) (sizeof_audit_message h_example)) \<and>
    map_option fst (returned (audit_get_reply h_example 3 rep_uninit GET_REPLY_BLOCKING 0
        (world_of 0 [] [Rx_fail EINTR, Rx_dgram oversized_dgram]))) = Some (- EFBIG)) \<and>
   ((0 :: int) \<le> 3 \<and>
    rx_queue (world_of 0 [] [Rx_dgram truncated_dgram])
      = replicate 0 (Rx_fail EINTR) @ Rx_dgram truncated_dgram # [] \<and>
    dg_addrlen truncated_dgram = sizeof_sockaddr_nl \<and> dg_pid truncated_dgram = 0 \<and>
    \<not> NLMSG_OK (msg_nlh (dg_msg truncated_dgram))
          (min (dg_size truncated_dgram) (sizeof_audit_message h_example)) \<and>
    map_option fst (returned (audit_get_reply h_example 3 rep_uninit GET_REPLY_NONBLOCKING 0
        (world_of 0 [] [Rx_dgram truncated_dgram]))) = Some (- EBADE))"
proof -
  have a: "(0 :: int) \<le> 3" by simp
  have b: "rx_queue (world_of 0 [] [Rx_fail EINTR, Rx_dgram oversized_dgram])
     = replicate 1 (Rx_fail EINTR) @ Rx_dgram oversized_dgram # []"
    by (simp add: world_of_def)
  have c: "dg_addrlen oversized_dgram = sizeof_sockaddr_nl" and d: "dg_pid oversized_dgram = 0"
    by (simp_all add: oversized_dgram_def sizeof_sockaddr_nl_def)
  have e: "\<not> NLMSG_OK (msg_nlh (dg_msg oversized_dgram))
         (min (dg_size oversized_dgram) (sizeof_audit_message h_example))"
    by (simp add: oversized_dgram_def h_example_def NLMSG_OK_def sizeof_nlmsghdr_def)
  have big: "sizeof_audit_message h_example \<le> dg_size oversized_dgram"
    by (simp add: oversized_dgram_def h_example_def)
  have b': "rx_queue (world_of 0 [] [Rx_dgram truncated_dgram])
     = replicate 0 (Rx_fail EINTR) @ Rx_dgram truncated_dgram # []"
    by (simp add: world_of_def)
  have c': "dg_addrlen truncated_dgram = sizeof_sockaddr_nl" and d': "dg_pid truncated_dgram = 0"
    by (simp_all add: truncated_dgram_def sizeof_sockaddr_nl_def)
  have e': "\<not> NLMSG_OK (msg_nlh (dg_msg truncated_dgram))
         (min (dg_size truncated_dgram) (sizeof_audit_message h_example))"
    by (simp add: truncated_dgram_def h_example_def NLMSG_OK_def sizeof_nlmsghdr_def)
  have small: "dg_size truncated_dgram < sizeof_audit_message h_example"
    by (simp add: truncated_dgram_def h_example_def)
  from audit_get_reply_bad_frame [OF a b c d e, of rep_uninit GET_REPLY_BLOCKING 0] big
  have 1: "map_option fst (returned (audit_get_reply h_example 3 rep_uninit GET_REPLY_BLOCKING 0
        (world_of 0 [] [Rx_fail EINTR, Rx_dgram oversized_dgram]))) = Some (- EFBIG)"
    by auto
  from audit_get_reply_bad_frame [OF a b' c' d' e', of rep_uninit GET_REPLY_NONBLOCKING 0] small
  have 2: "map_option fst (returned (audit_get_reply h_example 3 rep_uninit GET_REPLY_NONBLOCKING 0
        (world_of 0 [] [Rx_dgram truncated_dgram]))) = Some (- EBADE)"
    by auto
  from a b c d e 1 b' c' d' e' 2 show ?thesis by blast
qed

text \<open>
  Claim C5, as the code has it. A datagram whose sender address length is not
  \<^verbatim>\<open>sizeof(struct sockaddr_nl)\<close> is rejected with \<^verbatim>\<open>-EPROTO\<close>, whatever its
  process id; one with the right address length and a nonzero process id is rejected
  with \<^verbatim>\<open>-EINVAL\<close>, whatever its content. \<^verbatim>\<open>-EINVAL\<close> is the code of an invalid
  argument, not a code of its own.
\<close>

theorem audit_get_reply_sender_checks:
  assumes "0 \<le> fd" and "rx_queue w = Rx_dgram d # q"
  shows "(dg_addrlen d \<noteq> sizeof_sockaddr_nl \<longrightarrow>
            map_option fst (returned (audit_get_reply h fd rep block peek w)) = Some (- EPROTO)) \<and>
         (dg_addrlen d = sizeof_sockaddr_nl \<and> dg_pid d \<noteq> 0 \<longrightarrow>
            map_option fst (returned (audit_get_reply h fd rep block peek w)) = Some (- EINVAL))"
proof (intro conjI impI)
  assume "dg_addrlen d \<noteq> sizeof_sockaddr_nl"
  then show "map_option fst (returned (audit_get_reply h fd rep block peek w)) = Some (- EPROTO)"
    unfolding audit_get_reply_dgram [OF assms] by simp
next
  assume "dg_addrlen d = sizeof_sockaddr_nl \<and> dg_pid d \<noteq> 0"
  then show "map_option fst (returned (audit_get_reply h fd rep block peek w)) = Some (- EINVAL)"
    unfolding audit_get_reply_dgram [OF assms] by simp
qed

theorem audit_get_reply_sender_checks_witness:
  "((0 :: int) \<le> 3 \<and>
    rx_queue (world_of 0 [] [Rx_dgram ((netlink_ack 1 0)\<lparr>dg_addrlen := 10, dg_pid := 1234\<rparr>)])
      = Rx_dgram ((netlink_ack 1 0)\<lparr>dg_addrlen := 10, dg_pid := 1234\<rparr>) # [] \<and>
    dg_addrlen ((netlink_ack 1 0)\<lparr>dg_addrlen := 10, dg_pid := 1234\<rparr>) \<noteq> sizeof_sockaddr_nl \<and>
    map_option fst (returned (audit_get_reply h_example 3 rep_uninit GET_REPLY_BLOCKING 0
      (world_of 0 [] [Rx_dgram ((netlink_ack 1 0)\<lparr>dg_addrlen := 10, dg_pid := 1234\<rparr>)])))
      = Some (- EPROTO)) \<and>
   ((0 :: int) \<le> 3 \<and>
    rx_queue (world_of 0 [] [Rx_dgram ((netlink_ack 1 0)\<lparr>dg_pid := 1234\<rparr>)])
      = Rx_dgram ((netlink_ack 1 0)\<lparr>dg_pid := 1234\<rparr>) # [] \<and>
    dg_addrlen ((netlink_ack 1 0)\<lparr>dg_pid := 1234\<rparr>) = sizeof_sockaddr_nl \<and>
    dg_pid ((netlink_ack 1 0)\<lparr>dg_pid := 1234\<rparr>) \<noteq> 0 \<and>
    map_option fst (returned (audit_get_reply h_example 3 rep_uninit GET_REPLY_BLOCKING 0
      (world_of 0 [] [Rx_dgram ((netlink_ack 1 0)\<lparr>dg_pid := 1234\<rparr>)])))
      = Some (- EINVAL))"
proof -
  have a: "(0 :: int) \<le> 3" by simp
  have b1: "rx_queue (world_of 0 [] [Rx_dgram ((netlink_ack 1 0)\<lparr>dg_addrlen := 10, dg_pid := 1234\<rparr>)])
      = Rx_dgram ((netlink_ack 1 0)\<lparr>dg_addrlen := 10, dg_pid := 1234\<rparr>) # []"
    by (simp add: world_of_def)
  have c1: "dg_addrlen ((netlink_ack 1 0)\<lparr>dg_addrlen := 10, dg_pid := 1234\<rparr>) \<noteq> sizeof_sockaddr_nl"
    by (simp add: sizeof_sockaddr_nl_def)
  have b2: "rx_queue (world_of 0 [] [Rx_dgram ((netlink_ack 1 0)\<lparr>dg_pid := 1234\<rparr>)])
      = Rx_dgram ((netlink_ack 1 0)\<lparr>dg_pid := 1234\<rparr>) # []"
    by (simp add: world_of_def)
  have c2: "dg_addrlen ((netlink_ack 1 0)\<lparr>dg_pid := 1234\<rparr>) = sizeof_sockaddr_nl"
    and d2: "dg_pid ((netlink_ack 1 0)\<lparr>dg_pid := 1234\<rparr>) \<noteq> 0"
    by (simp_all add: netlink_ack_def sizeof_sockaddr_nl_def)
  from audit_get_reply_sender_checks [OF a b1, of h_example rep_uninit GET_REPLY_BLOCKING 0]
       audit_get_reply_sender_checks [OF a b2, of h_example rep_uninit GET_REPLY_BLOCKING 0]
       a b1 c1 b2 c2 d2
  show ?thesis by blast
qed

text \<open>
  The claim as stated fails: the code returned for a reply from process 1234 is
  \<^verbatim>\<open>-EINVAL\<close>, the very code \<^verbatim>\<open>audit_set_logsplit\<close> returns for an invalid
  \<^verbatim>\<open>enabled\<close> argument.
\<close>

theorem spoofed_reply_counterexample:
  "map_option fst (returned (audit_get_reply h_example 3 rep_uninit GET_REPLY_BLOCKING 0
       (world_of 0 [] [Rx_dgram ((netlink_ack 1 0)\<lparr>dg_pid := 1234\<rparr>)]))) = Some (- EINVAL) \<and>
   returned (audit_set_logsplit h_example 3 7 WAIT_NO (world_of 0 [] [])) = Some (- EINVAL)"
  by (simp add: audit_get_reply_eval world_of_def netlink_ack_def sizeof_sockaddr_nl_def
        audit_set_logsplit_def h_example_def)

section \<open>\<^verbatim>\<open>audit_get_reply\<close>: nothing pending, and interrupts\<close>

text \<open>
  Claim C6, as the code has it. A non-blocking \<^verbatim>\<open>audit_get_reply\<close> on a socket with
  nothing pending returns 0 after one \<^verbatim>\<open>recvfrom\<close> and leaves the caller's reply
  structure exactly as it was: nothing marks it empty. A non-blocking call never waits
  forever. In blocking mode every interrupted \<^verbatim>\<open>recvfrom\<close> is retried, however many
  there are: \<open>n\<close> interrupts cost \<open>n\<close> more calls and change nothing else.
\<close>

theorem audit_get_reply_would_block:
  "(0 \<le> fd \<and> rx_queue w = [] \<longrightarrow>
      audit_get_reply h fd rep GET_REPLY_NONBLOCKING peek w =
      Returns (0, rep) (w\<lparr>syscalls := syscalls w @ [Recvfrom fd (MSG_DONTWAIT OR peek)]\<rparr>)) \<and>
   (\<forall>w'. audit_get_reply h fd rep GET_REPLY_NONBLOCKING peek w \<noteq> Blocks w') \<and>
   (0 \<le> fd \<and> rx_queue w = replicate n (Rx_fail EINTR) @ q \<longrightarrow>
      audit_get_reply h fd rep GET_REPLY_BLOCKING peek w =
      audit_get_reply h fd rep GET_REPLY_BLOCKING peek
        (w\<lparr>syscalls := syscalls w @ replicate n (Recvfrom fd peek), rx_queue := q\<rparr>))"
proof (intro conjI impI allI)
  assume "0 \<le> fd \<and> rx_queue w = []"
  then show "audit_get_reply h fd rep GET_REPLY_NONBLOCKING peek w =
      Returns (0, rep) (w\<lparr>syscalls := syscalls w @ [Recvfrom fd (MSG_DONTWAIT OR peek)]\<rparr>)"
    by (simp add: audit_get_reply_empty_nonblocking)
next
  fix w'
  show "audit_get_reply h fd rep GET_REPLY_NONBLOCKING peek w \<noteq> Blocks w'"
    by (rule audit_get_reply_nonblocking_returns)
next
  assume a: "0 \<le> fd \<and> rx_queue w = replicate n (Rx_fail EINTR) @ q"
  then have "rx_queue w = replicate n (Rx_fail EINTR) @ q" by simp
  from audit_get_reply_interrupts [OF this, of h fd rep GET_REPLY_BLOCKING peek] a
  show "audit_get_reply h fd rep GET_REPLY_BLOCKING peek w =
      audit_get_reply h fd rep GET_REPLY_BLOCKING peek
        (w\<lparr>syscalls := syscalls w @ replicate n (Recvfrom fd peek), rx_queue := q\<rparr>)"
    by (simp add: recv_flags_def)
qed

theorem audit_get_reply_would_block_witness:
  "((0 :: int) \<le> 3 \<and> rx_queue (world_of 0 [] []) = [] \<and>
    audit_get_reply h_example 3 ack_reply GET_REPLY_NONBLOCKING 0 (world_of 0 [] []) =
      Returns (0, ack_reply)
        ((world_of 0 [] [])\<lparr>syscalls := syscalls (world_of 0 [] []) @ [Recvfrom 3 (MSG_DONTWAIT OR 0)]\<rparr>)) \<and>
   ((0 :: int) \<le> 3 \<and>
    rx_queue (world_of 0 [] [Rx_fail EINTR, Rx_fail EINTR, Rx_dgram (netlink_ack 1 0)])
      = replicate 2 (Rx_fail EINTR) @ [Rx_dgram (netlink_ack 1 0)] \<and>
    audit_get_reply h_example 3 rep_uninit GET_REPLY_BLOCKING 0
      (world_of 0 [] [Rx_fail EINTR, Rx_fail EINTR, Rx_dgram (netlink_ack 1 0)]) =
    audit_get_reply h_example 3 rep_uninit GET_REPLY_BLOCKING 0
      ((world_of 0 [] [Rx_fail EINTR, Rx_fail EINTR, Rx_dgram (netlink_ack 1 0)])
         \<lparr>syscalls := syscalls (world_of 0 [] [Rx_fail EINTR, Rx_fail EINTR, Rx_dgram (netlink_ack 1 0)])
                        @ replicate 2 (Recvfrom 3 0),
          rx_queue := [Rx_dgram (netlink_ack 1 0)]\<rparr>))"
proof -
  have a: "(0 :: int) \<le> 3 \<and> rx_queue (world_of 0 [] []) = []"
    by (simp add: world_of_def)
  have b: "(0 :: int) \<le> 3 \<and>
    rx_queue (world_of 0 [] [Rx_fail EINTR, Rx_fail EINTR, Rx_dgram (netlink_ack 1 0)])
      = replicate 2 (Rx_fail EINTR) @ [Rx_dgram (netlink_ack 1 0)]"
    by (simp add: world_of_def numeral_2_eq_2)
  from audit_get_reply_would_block
         [where fd = 3 and w = "world_of 0 [] []" and h = h_example and rep = ack_reply
            and peek = 0]
       audit_get_reply_would_block
         [where fd = 3 and h = h_example and rep = rep_uninit and peek = 0 and n = 2
            and w = "world_of 0 [] [Rx_fail EINTR, Rx_fail EINTR, Rx_dgram (netlink_ack 1 0)]"
            and q = "[Rx_dgram (netlink_ack 1 0)]"]
       a b
  show ?thesis by blast
qed

text \<open>
  The claim as stated fails: a caller whose reply structure still holds an earlier
  acknowledgement gets, with nothing pending, the same return value and the same reply
  as a caller who has just received that acknowledgement.
\<close>

theorem would_block_reply_counterexample:
  "returned (audit_get_reply h_example 3 ack_reply GET_REPLY_NONBLOCKING 0 (world_of 0 [] []))
     = Some (0, ack_reply) \<and>
   returned (audit_get_reply h_example 3 rep_uninit GET_REPLY_NONBLOCKING 0
       (world_of 0 [] [Rx_dgram (netlink_ack 1 0)])) = Some (0, ack_reply)"
  by (simp add: audit_get_reply_eval world_of_def netlink_ack_def sizeof_sockaddr_nl_def
        recv_flags_def MSG_DONTWAIT_def MSG_PEEK_def h_example_def ack_reply_def rep_uninit_def
        set_internal_fields_def NLMSG_OK_def sizeof_nlmsghdr_def NLMSG_ERROR_def)

section \<open>The framing arithmetic\<close>

lemma and_not_mask_2: "(x :: 32 word) AND NOT (mask 2) = push_bit 2 (drop_bit 2 x)"
proof -
  have s: "Suc (Suc (n - 2)) = n" if "2 \<le> n" for n :: nat using that by arith
  show ?thesis
    by (rule bit_word_eqI) (auto simp: bit_simps s not_less)
qed

lemma unat_push_drop_2: "unat (push_bit 2 (drop_bit 2 (x :: 32 word))) = 4 * (unat x div 4)"
proof -
  have "unat (push_bit 2 (drop_bit 2 x)) = (unat (drop_bit 2 x) * 4) mod 2 ^ 32"
    by (simp add: push_bit_eq_mult unat_word_ariths)
  also have "unat (drop_bit 2 x) = unat x div 4"
    by (simp add: drop_bit_eq_div unat_div)
  also have "(unat x div 4 * 4) mod 2 ^ 32 = unat x div 4 * 4"
  proof (rule mod_less)
    have "unat x div 4 * 4 \<le> unat x" by simp
    also have "unat x < 2 ^ 32" using unsigned_less [of x] by simp
    finally show "unat x div 4 * 4 < 2 ^ 32" .
  qed
  finally show ?thesis by (simp add: mult.commute)
qed

lemma NLMSG_ALIGN_eq: "NLMSG_ALIGN x = push_bit 2 (drop_bit 2 (x + 3))"
proof -
  have "NLMSG_ALIGN x = (x + 3) AND NOT (mask 2)"
    by (simp add: NLMSG_ALIGN_def NLMSG_ALIGNTO_def mask_eq_exp_minus_1 add.commute)
  then show ?thesis by (simp only: and_not_mask_2)
qed

lemma NLMSG_HDRLEN_16: "NLMSG_HDRLEN = 16"
  by (simp add: NLMSG_HDRLEN_def NLMSG_ALIGN_def NLMSG_ALIGNTO_def sizeof_nlmsghdr_def)

lemma unat_NLMSG_SPACE:
  assumes "unat sz + 19 < 2 ^ 32"
  shows "unat (NLMSG_SPACE sz) = 4 * ((unat sz + 19) div 4)"
proof -
  have "unat (sz + 19) = unat sz + 19"
    using assms by (simp add: unat_word_ariths)
  moreover have "NLMSG_SPACE sz = push_bit 2 (drop_bit 2 (sz + 19))"
    by (simp add: NLMSG_SPACE_def NLMSG_LENGTH_def NLMSG_HDRLEN_16 NLMSG_ALIGN_eq add.commute)
  ultimately show ?thesis by (simp only: unat_push_drop_2)
qed

section \<open>\<^verbatim>\<open>audit_send\<close>: validation and framing\<close>

lemma syscalls_audit_send_out:
  "\<exists>w'. final_world (audit_send_out rc w) = Some w' \<and> syscalls w' = syscalls w"
  by (simp add: audit_send_out_def)

lemma in_bounds_facts:
  assumes max: "MAX_AUDIT_MESSAGE_LENGTH h < 2 ^ 31"
    and bound: "4 * ((unat sz + 19) div 4) \<le> MAX_AUDIT_MESSAGE_LENGTH h"
  shows "unat sz + 19 < 2 ^ 32"
    and "unat (NLMSG_SPACE sz) = 4 * ((unat sz + 19) div 4)"
    and "\<not> NLMSG_SPACE sz > of_nat (MAX_AUDIT_MESSAGE_LENGTH h)"
    and "unat sz + 16 \<le> MAX_AUDIT_MESSAGE_LENGTH h"
proof -
  have "unat sz + 19 < 4 * ((unat sz + 19) div 4) + 4" by arith
  with max bound show a: "unat sz + 19 < 2 ^ 32" by simp
  from unat_NLMSG_SPACE [OF a] show b: "unat (NLMSG_SPACE sz) = 4 * ((unat sz + 19) div 4)" .
  have "unat (of_nat (MAX_AUDIT_MESSAGE_LENGTH h) :: 32 word) = MAX_AUDIT_MESSAGE_LENGTH h"
    using max by (simp add: unat_of_nat)
  with b bound show "\<not> NLMSG_SPACE sz > of_nat (MAX_AUDIT_MESSAGE_LENGTH h)"
    by (simp add: word_less_nat_alt)
  show "unat sz + 16 \<le> MAX_AUDIT_MESSAGE_LENGTH h" using bound by arith
qed

lemma audit_send_in_bounds:
  assumes fd: "0 \<le> fd"
    and max: "MAX_AUDIT_MESSAGE_LENGTH h < 2 ^ 31"
    and bound: "4 * ((unat sz + 19) div 4) \<le> MAX_AUDIT_MESSAGE_LENGTH h"
    and src: "data = None \<or> unat sz \<le> length (the data)"
  shows "audit_send h fd type data sz w =
      (case sendto_loop fd (request_header type sz (sequence w + 1)) (request_data h data sz)
              (w\<lparr>sequence := sequence w + 1\<rparr>) of
         Undefined \<Rightarrow> Undefined
       | Blocks w2 \<Rightarrow> Blocks w2
       | Returns r w2 \<Rightarrow>
           (let rc = (case r of Send_ok n \<Rightarrow> int n | _ \<Rightarrow> - 1);
                errno = (case r of Send_fail e \<Rightarrow> e | _ \<Rightarrow> 0)
            in
              if (word_of_int rc :: 32 word) \<noteq> NLMSG_SPACE sz
              then audit_send_out (- EPROTO) w2
              else if rc < 0 then audit_send_out (- errno) w2
              else
                (case get_ack h fd (sequence w2) w2 of
                   Undefined \<Rightarrow> Undefined
                 | Blocks w3 \<Rightarrow> Blocks w3
                 | Returns rc3 w3 \<Rightarrow>
                     audit_send_out (if rc3 = 0 then sint (sequence w3) else rc3) w3)))"
proof -
  note f = in_bounds_facts [OF max bound]
  have cp: "(if sz \<noteq> 0 \<and> data \<noteq> None
             then memcpy (replicate (MAX_AUDIT_MESSAGE_LENGTH h) 0) (the data) (unat sz)
             else Some (replicate (MAX_AUDIT_MESSAGE_LENGTH h) 0)) = Some (request_data h data sz)"
    using src f(4) by (auto simp: memcpy_def request_data_def)
  show ?thesis
    using fd f(3) unfolding audit_send_def Let_def cp
    by (simp add: request_header_def cong: outcome.case_cong)
qed

lemma audit_send_transmits:
  assumes fd: "0 \<le> fd"
    and max: "MAX_AUDIT_MESSAGE_LENGTH h < 2 ^ 31"
    and bound: "4 * ((unat sz + 19) div 4) \<le> MAX_AUDIT_MESSAGE_LENGTH h"
    and src: "data = None \<or> unat sz \<le> length (the data)"
  shows "\<exists>w' rest. final_world (audit_send h fd type data sz w) = Some w' \<and>
           syscalls w' = syscalls w @
             sendto_call fd (request_header type sz (sequence w + 1)) (request_data h data sz) # rest"
proof -
  let ?nlh = "request_header type sz (sequence w + 1)"
  let ?data = "request_data h data sz"
  let ?w1 = "w\<lparr>sequence := sequence w + 1\<rparr>"
  note unf = audit_send_in_bounds [OF assms, of type w]
  obtain w2 rest where tr: "final_world (sendto_loop fd ?nlh ?data ?w1) = Some w2"
    "syscalls w2 = syscalls ?w1 @ sendto_call fd ?nlh ?data # rest"
    using sendto_loop_trace by blast
  have out: "\<exists>w'. final_world (audit_send_out rc w2) = Some w' \<and>
      syscalls w' = syscalls w @ sendto_call fd ?nlh ?data # rest" for rc
    using syscalls_audit_send_out [of rc w2] tr(2) by simp
  show ?thesis
  proof (cases "sendto_loop fd ?nlh ?data ?w1")
    case Undefined
    with tr show ?thesis by simp
  next
    case (Blocks w2')
    with tr unf show ?thesis by simp
  next
    case sent: (Returns r w2')
    with tr have w2: "w2' = w2" by simp
    obtain w3 rest3 where ack: "final_world (get_ack h fd (sequence w2) w2) = Some w3"
      "syscalls w3 = syscalls w2 @ rest3"
      using get_ack_trace by blast
    have acked: "\<exists>w'. final_world (audit_send_out rc w3) = Some w' \<and>
        syscalls w' = syscalls w @ sendto_call fd ?nlh ?data # rest @ rest3" for rc
      using syscalls_audit_send_out [of rc w3] tr(2) ack(2) by simp
    show ?thesis
    proof (cases "get_ack h fd (sequence w2) w2")
      case Undefined
      with ack show ?thesis by simp
    next
      case (Blocks w3')
      with ack have "w3' = w3" by simp
      with Blocks sent w2 unf tr(2) ack(2)
        out [of "- EPROTO"] out [of "- (case r of Send_fail e \<Rightarrow> e | _ \<Rightarrow> 0)"]
      show ?thesis
        by (auto simp: Let_def)
    next
      case (Returns rc3 w3')
      with ack have "w3' = w3" by simp
      with Returns sent w2 unf
        out [of "- EPROTO"] out [of "- (case r of Send_fail e \<Rightarrow> e | _ \<Rightarrow> 0)"]
        acked [of "if rc3 = 0 then sint (sequence w3) else rc3"]
      show ?thesis
        by (auto simp: Let_def)
    qed
  qed
qed

text \<open>
  Claim C9. For every payload size within bounds (the header plus the payload, rounded
  up to a multiple of 4, does not exceed \<^verbatim>\<open>MAX_AUDIT_MESSAGE_LENGTH\<close>), on a valid
  descriptor, \<^verbatim>\<open>audit_send\<close> calls \<^verbatim>\<open>sendto\<close> with a frame whose \<^verbatim>\<open>nlmsg_len\<close> is
  that rounded size, whose \<^verbatim>\<open>nlmsg_type\<close> is the requested type (stored in the 16 bits
  of the field, so equal to it for every type from 0 to 65535) and whose flags are
  \<^verbatim>\<open>NLM_F_REQUEST | NLM_F_ACK\<close>. This holds whether the call then returns or waits
  forever; \<open>data\<close> is null or points to at least \<open>sz\<close> bytes.
\<close>

theorem audit_send_frame_header:
  assumes "0 \<le> fd"
    and "MAX_AUDIT_MESSAGE_LENGTH h < 2 ^ 31"
    and "4 * ((unat sz + 19) div 4) \<le> MAX_AUDIT_MESSAGE_LENGTH h"
    and "data = None \<or> unat sz \<le> length (the data)"
  shows "\<exists>w' nlh payload rest.
           final_world (audit_send h fd type data sz w) = Some w' \<and>
           syscalls w' = syscalls w @ Sendto fd nlh payload (nlmsg_len nlh) # rest \<and>
           unat (nlmsg_len nlh) = 4 * ((unat sz + 19) div 4) \<and>
           nlmsg_type nlh = word_of_int type \<and>
           (0 \<le> type \<and> type < 65536 \<longrightarrow> uint (nlmsg_type nlh) = type) \<and>
           nlmsg_flags nlh = NLM_F_REQUEST OR NLM_F_ACK"
proof -
  let ?nlh = "request_header type sz (sequence w + 1)"
  from audit_send_transmits [OF assms] obtain w' rest where
    "final_world (audit_send h fd type data sz w) = Some w'"
    "syscalls w' = syscalls w @ sendto_call fd ?nlh (request_data h data sz) # rest"
    by blast
  moreover have "unat (nlmsg_len ?nlh) = 4 * ((unat sz + 19) div 4)"
    using in_bounds_facts(2) [OF assms(2,3)] by (simp add: request_header_def)
  moreover have "nlmsg_type ?nlh = word_of_int type"
    and "nlmsg_flags ?nlh = NLM_F_REQUEST OR NLM_F_ACK"
    by (simp_all add: request_header_def)
  moreover have "uint (word_of_int type :: 16 word) = type" if "0 \<le> type \<and> type < 65536"
    using that by (simp add: uint_word_of_int take_bit_eq_mod)
  ultimately show ?thesis
    unfolding sendto_call_def by force
qed

theorem audit_send_frame_header_witness:
  "(0::int) \<le> 3 \<and> MAX_AUDIT_MESSAGE_LENGTH h_example < 2 ^ 31 \<and>
   4 * ((unat (5 :: 32 word) + 19) div 4) \<le> MAX_AUDIT_MESSAGE_LENGTH h_example \<and>
   (Some [1, 2, 3, 4, 5 :: 8 word] = None \<or>
      unat (5 :: 32 word) \<le> length (the (Some [1, 2, 3, 4, 5 :: 8 word]))) \<and>
   (\<exists>w' nlh payload rest.
      final_world (audit_send h_example 3 1001 (Some [1, 2, 3, 4, 5]) 5
                     (world_of 0 [Tx_take 36] [Rx_dgram (netlink_ack 1 0)])) = Some w' \<and>
      syscalls w' = syscalls (world_of 0 [Tx_take 36] [Rx_dgram (netlink_ack 1 0)])
                      @ Sendto 3 nlh payload (nlmsg_len nlh) # rest \<and>
      unat (nlmsg_len nlh) = 4 * ((unat (5 :: 32 word) + 19) div 4) \<and>
      nlmsg_type nlh = word_of_int 1001 \<and>
      ((0::int) \<le> 1001 \<and> (1001::int) < 65536 \<longrightarrow> uint (nlmsg_type nlh) = 1001) \<and>
      nlmsg_flags nlh = NLM_F_REQUEST OR NLM_F_ACK)"
proof -
  have a: "(0::int) \<le> 3" by simp
  have b: "MAX_AUDIT_MESSAGE_LENGTH h_example < 2 ^ 31" by (simp add: h_example_def)
  have c: "4 * ((unat (5 :: 32 word) + 19) div 4) \<le> MAX_AUDIT_MESSAGE_LENGTH h_example"
    by (simp add: h_example_def)
  have d: "Some [1, 2, 3, 4, 5 :: 8 word] = None \<or>
      unat (5 :: 32 word) \<le> length (the (Some [1, 2, 3, 4, 5 :: 8 word]))" by simp
  from audit_send_frame_header
         [OF a b c d, where type = 1001
            and w = "world_of 0 [Tx_take 36] [Rx_dgram (netlink_ack 1 0)]"]
  show ?thesis using a b c d by blast
qed

text \<open>
  Claim C10. A null \<^verbatim>\<open>data\<close> pointer with a nonzero size within bounds is not
  rejected: \<^verbatim>\<open>audit_send\<close> calls \<^verbatim>\<open>sendto\<close> with a frame whose \<^verbatim>\<open>nlmsg_len\<close> is the
  aligned size of header plus \<open>sz\<close>, and every payload byte offered after the header is
  zero; these are at least \<open>sz\<close> bytes.
\<close>

theorem audit_send_null_data:
  assumes "0 \<le> fd"
    and "MAX_AUDIT_MESSAGE_LENGTH h < 2 ^ 31"
    and "4 * ((unat sz + 19) div 4) \<le> MAX_AUDIT_MESSAGE_LENGTH h"
    and "sz \<noteq> 0"
  shows "\<exists>w' nlh payload rest.
           final_world (audit_send h fd type None sz w) = Some w' \<and>
           syscalls w' = syscalls w @ Sendto fd nlh payload (nlmsg_len nlh) # rest \<and>
           unat (nlmsg_len nlh) = 4 * ((unat sz + 19) div 4) \<and>
           payload = replicate (unat (nlmsg_len nlh) - sizeof_nlmsghdr) 0 \<and>
           unat sz \<le> length payload"
proof -
  let ?nlh = "request_header type sz (sequence w + 1)"
  have src: "None = None \<or> unat sz \<le> length (the (None :: 8 word list option))" by simp
  from audit_send_transmits [OF assms(1-3) src] obtain w' rest where
    "final_world (audit_send h fd type None sz w) = Some w'"
    "syscalls w' = syscalls w @ sendto_call fd ?nlh (request_data h None sz) # rest"
    by blast
  moreover have len: "unat (nlmsg_len ?nlh) = 4 * ((unat sz + 19) div 4)"
    using in_bounds_facts(2) [OF assms(2,3)] by (simp add: request_header_def)
  moreover have "take (unat (nlmsg_len ?nlh) - sizeof_nlmsghdr) (request_data h None sz)
      = replicate (unat (nlmsg_len ?nlh) - sizeof_nlmsghdr) 0"
  proof -
    have "unat (nlmsg_len ?nlh) - sizeof_nlmsghdr \<le> MAX_AUDIT_MESSAGE_LENGTH h"
      using assms(3) len by arith
    then show ?thesis by (simp add: request_data_def min_def)
  qed
  moreover have "unat sz \<le> unat (nlmsg_len ?nlh) - sizeof_nlmsghdr"
    unfolding len sizeof_nlmsghdr_def by arith
  ultimately show ?thesis
    unfolding sendto_call_def by force
qed

theorem audit_send_null_data_witness:
  "(0::int) \<le> 3 \<and> MAX_AUDIT_MESSAGE_LENGTH h_example < 2 ^ 31 \<and>
   4 * ((unat (5 :: 32 word) + 19) div 4) \<le> MAX_AUDIT_MESSAGE_LENGTH h_example \<and>
   (5 :: 32 word) \<noteq> 0 \<and>
   (\<exists>w' nlh payload rest.
      final_world (audit_send h_example 3 1001 None 5
                     (world_of 0 [Tx_take 36] [Rx_dgram (netlink_ack 1 0)])) = Some w' \<and>
      syscalls w' = syscalls (world_of 0 [Tx_take 36] [Rx_dgram (netlink_ack 1 0)])
                      @ Sendto 3 nlh payload (nlmsg_len nlh) # rest \<and>
      unat (nlmsg_len nlh) = 4 * ((unat (5 :: 32 word) + 19) div 4) \<and>
      payload = replicate (unat (nlmsg_len nlh) - sizeof_nlmsghdr) 0 \<and>
      unat (5 :: 32 word) \<le> length payload)"
proof -
  have a: "(0::int) \<le> 3" by simp
  have b: "MAX_AUDIT_MESSAGE_LENGTH h_example < 2 ^ 31" by (simp add: h_example_def)
  have c: "4 * ((unat (5 :: 32 word) + 19) div 4) \<le> MAX_AUDIT_MESSAGE_LENGTH h_example"
    by (simp add: h_example_def)
  have d: "(5 :: 32 word) \<noteq> 0" by simp
  from audit_send_null_data
         [OF a b c d, where type = 1001
            and w = "world_of 0 [Tx_take 36] [Rx_dgram (netlink_ack 1 0)]"]
  show ?thesis using a b c d by blast
qed

text \<open>
  The two checks that precede the sequence number. A negative descriptor is rejected
  with \<^verbatim>\<open>-EBADF\<close> and a payload for which \<^verbatim>\<open>NLMSG_SPACE(size)\<close>, as the macro
  computes it in 32 bits, exceeds \<^verbatim>\<open>MAX_AUDIT_MESSAGE_LENGTH\<close> with \<^verbatim>\<open>-EINVAL\<close>; the
  state is returned as it was. As long as \<open>size + 19\<close> stays below \<open>2 ^ 32\<close> the macro
  is the header plus the payload rounded up to a multiple of 4, so every oversize
  payload in that range is rejected (third part). From \<open>size = 2 ^ 32 - 19\<close> on the
  macro wraps around and the check no longer sees the size.
\<close>

lemma audit_send_rejects_in_range:
  "(fd < 0 \<longrightarrow> audit_send h fd type data sz w = Returns (- EBADF) w) \<and>
   (0 \<le> fd \<and> of_nat (MAX_AUDIT_MESSAGE_LENGTH h) < NLMSG_SPACE sz
      \<longrightarrow> audit_send h fd type data sz w = Returns (- EINVAL) w) \<and>
   (0 \<le> fd \<and> unat sz + 19 < 2 ^ 32 \<and> MAX_AUDIT_MESSAGE_LENGTH h < 4 * ((unat sz + 19) div 4)
      \<longrightarrow> audit_send h fd type data sz w = Returns (- EINVAL) w)"
proof (intro conjI impI)
  assume "fd < 0"
  then show "audit_send h fd type data sz w = Returns (- EBADF) w"
    by (simp add: audit_send_def)
next
  assume "0 \<le> fd \<and> of_nat (MAX_AUDIT_MESSAGE_LENGTH h) < NLMSG_SPACE sz"
  then show "audit_send h fd type data sz w = Returns (- EINVAL) w"
    by (simp add: audit_send_def)
next
  assume a: "0 \<le> fd \<and> unat sz + 19 < 2 ^ 32 \<and> MAX_AUDIT_MESSAGE_LENGTH h < 4 * ((unat sz + 19) div 4)"
  then have sp: "unat (NLMSG_SPACE sz) = 4 * ((unat sz + 19) div 4)"
    by (simp add: unat_NLMSG_SPACE)
  have "unat (of_nat (MAX_AUDIT_MESSAGE_LENGTH h) :: 32 word) \<le> MAX_AUDIT_MESSAGE_LENGTH h"
    by (simp add: unat_of_nat)
  with a sp have "NLMSG_SPACE sz > of_nat (MAX_AUDIT_MESSAGE_LENGTH h)"
    by (simp add: word_less_nat_alt)
  with a show "audit_send h fd type data sz w = Returns (- EINVAL) w"
    by (simp add: audit_send_def)
qed


section \<open>\<^verbatim>\<open>audit_send\<close>: after the \<^verbatim>\<open>sendto\<close> loop\<close>

text \<open>
  What \<^verbatim>\<open>audit_send\<close> returns for an in-bounds request, by what the transport does
  with the first uninterrupted \<^verbatim>\<open>sendto\<close> and by the reply that is pending.
\<close>

lemma audit_send_failed:
  assumes "0 \<le> fd"
    and "MAX_AUDIT_MESSAGE_LENGTH h < 2 ^ 31"
    and "4 * ((unat sz + 19) div 4) \<le> MAX_AUDIT_MESSAGE_LENGTH h"
    and "data = None \<or> unat sz \<le> length (the data)"
    and tx: "tx_script w = Tx_fail e # rs" and e: "e \<noteq> EINTR"
  shows "audit_send h fd type data sz w =
     audit_send_out (- EPROTO)
       (w\<lparr>sequence := sequence w + 1,
          syscalls := syscalls w @
            [sendto_call fd (request_header type sz (sequence w + 1)) (request_data h data sz)],
          tx_script := rs\<rparr>)"
proof -
  note f = in_bounds_facts [OF assms(2,3)]
  have lt: "unat (NLMSG_SPACE sz) < 2 ^ 31" using f(2) assms(2,3) by simp
  have ne: "(- 1 :: 32 word) \<noteq> NLMSG_SPACE sz"
  proof
    assume "(- 1 :: 32 word) = NLMSG_SPACE sz"
    then have "unat (NLMSG_SPACE sz) = unat (- 1 :: 32 word)" by simp
    also have "\<dots> = 4294967295" by (simp add: unsigned_minus_1_eq_mask mask_eq_exp_minus_1)
    finally show False using lt by simp
  qed
  have "tx_script (w\<lparr>sequence := sequence w + 1\<rparr>) = Tx_fail e # rs" using tx by simp
  from sendto_loop_fail [OF this e] ne show ?thesis
    by (simp add: audit_send_in_bounds [OF assms(1-4)])
qed

lemma audit_send_partial:
  assumes "0 \<le> fd"
    and "MAX_AUDIT_MESSAGE_LENGTH h < 2 ^ 31"
    and "4 * ((unat sz + 19) div 4) \<le> MAX_AUDIT_MESSAGE_LENGTH h"
    and "data = None \<or> unat sz \<le> length (the data)"
    and tx: "tx_script w = Tx_take n # rs" and n: "n < unat (NLMSG_SPACE sz)"
  shows "audit_send h fd type data sz w =
     audit_send_out (- EPROTO)
       (w\<lparr>sequence := sequence w + 1,
          syscalls := syscalls w @
            [sendto_call fd (request_header type sz (sequence w + 1)) (request_data h data sz)],
          tx_script := rs\<rparr>)"
proof -
  have "unat (NLMSG_SPACE sz) < 2 ^ 32"
    using unsigned_less [of "NLMSG_SPACE sz"] by simp
  with n have "unat (word_of_nat n :: 32 word) = n"
    by (simp add: unat_of_nat)
  with n have ne: "(word_of_nat n :: 32 word) \<noteq> NLMSG_SPACE sz" by auto
  have "tx_script (w\<lparr>sequence := sequence w + 1\<rparr>) = Tx_take n # rs" using tx by simp
  from sendto_loop_take [OF this] ne n show ?thesis
    by (simp add: audit_send_in_bounds [OF assms(1-4)] request_header_def min_def)
qed

lemma audit_send_full:
  assumes "0 \<le> fd"
    and "MAX_AUDIT_MESSAGE_LENGTH h < 2 ^ 31"
    and "4 * ((unat sz + 19) div 4) \<le> MAX_AUDIT_MESSAGE_LENGTH h"
    and "data = None \<or> unat sz \<le> length (the data)"
    and tx: "tx_script w = Tx_take n # rs" and n: "unat (NLMSG_SPACE sz) \<le> n"
  shows "audit_send h fd type data sz w =
     (case get_ack h fd (sequence w + 1)
             (w\<lparr>sequence := sequence w + 1,
                syscalls := syscalls w @
                  [sendto_call fd (request_header type sz (sequence w + 1)) (request_data h data sz)],
                tx_script := rs\<rparr>) of
        Undefined \<Rightarrow> Undefined
      | Blocks w3 \<Rightarrow> Blocks w3
      | Returns rc3 w3 \<Rightarrow> audit_send_out (if rc3 = 0 then sint (sequence w3) else rc3) w3)"
proof -
  have "tx_script (w\<lparr>sequence := sequence w + 1\<rparr>) = Tx_take n # rs" using tx by simp
  from sendto_loop_take [OF this] n show ?thesis
    by (simp add: audit_send_in_bounds [OF assms(1-4)] request_header_def min_def)
qed

lemma recv_flags_blocking [simp]: "recv_flags GET_REPLY_BLOCKING peek = peek"
  by (simp add: recv_flags_def)

lemma MSG_PEEK_nonzero [simp]: "MSG_PEEK \<noteq> 0"
  by (simp add: MSG_PEEK_def)

lemma get_ack_error_reply:
  assumes fd: "0 \<le> fd" and q: "rx_queue w = Rx_dgram d # q"
    and "dg_addrlen d = sizeof_sockaddr_nl" and "dg_pid d = 0"
    and "NLMSG_OK (msg_nlh (dg_msg d)) (min (dg_size d) (sizeof_audit_message h))"
    and "nlmsg_type (msg_nlh (dg_msg d)) = 2"
  shows "get_ack h fd seq w =
     Returns (if msg_error (dg_msg d) \<noteq> 0 then sint (- msg_error (dg_msg d)) else 0)
       (w\<lparr>syscalls := syscalls w @ [Recvfrom fd MSG_PEEK, Recvfrom fd 0], rx_queue := q\<rparr>)"
proof -
  let ?w1 = "w\<lparr>syscalls := syscalls w @ [Recvfrom fd MSG_PEEK], rx_queue := Rx_dgram d # q\<rparr>"
  have q1: "rx_queue ?w1 = Rx_dgram d # q" by simp
  show ?thesis
    using fd assms(3-6)
    by (simp add: get_ack_def audit_get_reply_dgram [OF fd q] audit_get_reply_dgram [OF fd q1]
          set_internal_fields_def NLMSG_ERROR_def Let_def)
qed

lemma get_ack_other_reply:
  assumes fd: "0 \<le> fd" and q: "rx_queue w = Rx_dgram d # q"
    and "dg_addrlen d = sizeof_sockaddr_nl" and "dg_pid d = 0"
    and "NLMSG_OK (msg_nlh (dg_msg d)) (min (dg_size d) (sizeof_audit_message h))"
    and "nlmsg_type (msg_nlh (dg_msg d)) \<noteq> 2"
  shows "get_ack h fd seq w = Returns 0 (w\<lparr>syscalls := syscalls w @ [Recvfrom fd MSG_PEEK]\<rparr>)"
proof -
  have w1: "w\<lparr>syscalls := syscalls w @ [Recvfrom fd MSG_PEEK], rx_queue := Rx_dgram d # q\<rparr>
        = w\<lparr>syscalls := syscalls w @ [Recvfrom fd MSG_PEEK]\<rparr>"
    using q by (cases w) simp
  have "uint (nlmsg_type (msg_nlh (dg_msg d))) \<noteq> 2"
    using assms(6) by (simp add: word_uint_eq_iff)
  then show ?thesis
    using fd assms(3-5)
    by (simp add: get_ack_def audit_get_reply_dgram [OF fd q]
          set_internal_fields_def NLMSG_ERROR_def Let_def w1
          AUDIT_GET_def AUDIT_LIST_RULES_def AUDIT_SIGNAL_INFO_def)
qed

lemma audit_send_acked:
  assumes "0 \<le> fd"
    and "MAX_AUDIT_MESSAGE_LENGTH h < 2 ^ 31"
    and "4 * ((unat sz + 19) div 4) \<le> MAX_AUDIT_MESSAGE_LENGTH h"
    and "data = None \<or> unat sz \<le> length (the data)"
    and tx: "tx_script w = Tx_take n # rs" and n: "unat (NLMSG_SPACE sz) \<le> n"
    and q: "rx_queue w = Rx_dgram d # q"
    and d: "dg_addrlen d = sizeof_sockaddr_nl" "dg_pid d = 0"
      "NLMSG_OK (msg_nlh (dg_msg d)) (min (dg_size d) (sizeof_audit_message h))"
      "nlmsg_type (msg_nlh (dg_msg d)) = 2"
  shows "audit_send h fd type data sz w =
     audit_send_out
       (if msg_error (dg_msg d) \<noteq> 0 then sint (- msg_error (dg_msg d))
        else sint (sequence w + 1))
       (w\<lparr>sequence := sequence w + 1,
          syscalls := syscalls w @
            [sendto_call fd (request_header type sz (sequence w + 1)) (request_data h data sz),
             Recvfrom fd MSG_PEEK, Recvfrom fd 0],
          tx_script := rs, rx_queue := q\<rparr>)"
proof -
  let ?w2 = "w\<lparr>sequence := sequence w + 1,
                syscalls := syscalls w @
                  [sendto_call fd (request_header type sz (sequence w + 1)) (request_data h data sz)],
                tx_script := rs\<rparr>"
  have q2: "rx_queue ?w2 = Rx_dgram d # q" using q by simp
  have nz: "sint (- msg_error (dg_msg d)) \<noteq> 0" if "msg_error (dg_msg d) \<noteq> 0"
    using that by (simp add: signed_eq_0_iff)
  show ?thesis
    unfolding audit_send_full [OF assms(1-4) tx n]
      get_ack_error_reply [OF assms(1) q2 d]
    using nz by (cases w) simp
qed

text \<open>
  While the counter is below 32767, an acknowledged call returns the counter plus one
  and leaves the counter at that value.
\<close>

lemma sint_sequence_succ:
  fixes s :: "16 word"
  assumes "sint s < 32767"
  shows "sint (s + 1) = sint s + 1"
proof -
  have lo: "- 32768 \<le> sint s" using sint_ge [of s] by simp
  have "sint (s + 1) = signed_take_bit 15 (sint s + 1)"
    by (simp add: sint_word_ariths)
  also have "\<dots> = sint s + 1"
    using assms lo by (simp add: signed_take_bit_int_eq_self)
  finally show ?thesis .
qed

lemma audit_send_issues_next_sequence:
  assumes "0 \<le> fd"
    and "MAX_AUDIT_MESSAGE_LENGTH h < 2 ^ 31"
    and "4 * ((unat sz + 19) div 4) \<le> MAX_AUDIT_MESSAGE_LENGTH h"
    and "data = None \<or> unat sz \<le> length (the data)"
    and "tx_script w = Tx_take n # rs" and "unat (NLMSG_SPACE sz) \<le> n"
    and "rx_queue w = Rx_dgram d # q"
    and "dg_addrlen d = sizeof_sockaddr_nl" "dg_pid d = 0"
      "NLMSG_OK (msg_nlh (dg_msg d)) (min (dg_size d) (sizeof_audit_message h))"
      "nlmsg_type (msg_nlh (dg_msg d)) = 2"
    and ok: "msg_error (dg_msg d) = 0"
    and range: "0 \<le> sint (sequence w)" "sint (sequence w) < 32767"
  shows "audit_send h fd type data sz w =
     Returns (sint (sequence w) + 1)
       (w\<lparr>sequence := sequence w + 1,
          syscalls := syscalls w @
            [sendto_call fd (request_header type sz (sequence w + 1)) (request_data h data sz),
             Recvfrom fd MSG_PEEK, Recvfrom fd 0],
          tx_script := rs, rx_queue := q\<rparr>)"
  using ok range sint_sequence_succ [OF range(2)]
  by (simp add: audit_send_acked [OF assms(1-11)] audit_send_out_def word_sless_alt)

text \<open>
  Claim C1, where the code departs from it. The request is transmitted in full and the
  kernel's acknowledgement carries the error code \<open>-13\<close> (\<^verbatim>\<open>-EACCES\<close>).
  \<^verbatim>\<open>get_ack\<close> peeks it, consumes it and returns \<^verbatim>\<open>-rep.error->error\<close>, which is
  \<open>+13\<close>; \<^verbatim>\<open>audit_send\<close> passes that on, so its caller reads a sequence number 13,
  and \<^verbatim>\<open>audit_set_logsplit\<close>, which tests \<^verbatim>\<open>rc < 0\<close>, returns 0 for the request the
  kernel refused. The doc comments promise \<^verbatim>\<open>-errno\<close> on failure.
\<close>

theorem kernel_refusal_returned_as_success:
  "audit_send h_example 3 1001 None 4 (world_of 0 [Tx_take 36] [Rx_dgram (netlink_ack 1 (- 13))])
     = Returns 13
         \<lparr>sequence = 1, tx_script = [], rx_queue = [],
          syscalls = [Sendto 3 \<lparr>nlmsg_len = 20, nlmsg_type = 1001, nlmsg_flags = 5,
                                nlmsg_seq = 1, nlmsg_pid = 0\<rparr> (replicate 4 0) 20,
                      Recvfrom 3 2, Recvfrom 3 0]\<rparr> \<and>
   returned (audit_set_logsplit h_example 3 1 WAIT_NO
               (world_of 0 [Tx_take 36] [Rx_dgram (netlink_ack 1 (- 13))])) = Some 0"
  by (simp add: audit_set_logsplit_def audit_send_def h_example_def world_of_def netlink_ack_def
        NLMSG_SPACE_def NLMSG_LENGTH_def NLMSG_HDRLEN_def NLMSG_ALIGN_def NLMSG_ALIGNTO_def
        memcpy_def sendto_loop.simps sendto_def sizeof_nlmsghdr_def EINTR_def EPROTO_def
        get_ack_def audit_get_reply_def recv_loop.simps recvfrom_def MSG_PEEK_def MSG_DONTWAIT_def
        sizeof_sockaddr_nl_def set_internal_fields_def NLMSG_OK_def NLMSG_ERROR_def
        rep_uninit_def audit_send_out_def word_sless_alt NLM_F_REQUEST_def NLM_F_ACK_def)

text \<open>
  Claim C2, where the code departs from it. \<^verbatim>\<open>sendto\<close> fails with
  \<^verbatim>\<open>ECONNREFUSED\<close> (111). \<^verbatim>\<open>(uint32_t) rc != req.nlh.nlmsg_len\<close> is tested first and
  holds for \<^verbatim>\<open>rc = -1\<close>, so \<^verbatim>\<open>audit_send\<close> returns \<^verbatim>\<open>-EPROTO\<close>, not \<open>-111\<close>; the
  branch \<^verbatim>\<open>else if (rc < 0)\<close> that would return \<^verbatim>\<open>-errno\<close> is never reached
  (\<open>audit_send_failed\<close> shows it for every \<^verbatim>\<open>errno\<close> but \<^verbatim>\<open>EINTR\<close>).
\<close>

theorem send_failure_returned_as_EPROTO:
  "audit_send h_example 3 1001 None 4 (world_of 0 [Tx_fail 111] [])
     = Returns (- EPROTO)
         \<lparr>sequence = 1, tx_script = [], rx_queue = [],
          syscalls = [Sendto 3 \<lparr>nlmsg_len = 20, nlmsg_type = 1001, nlmsg_flags = 5,
                                nlmsg_seq = 1, nlmsg_pid = 0\<rparr> (replicate 4 0) 20]\<rparr> \<and>
   - EPROTO \<noteq> - 111"
  by (simp add: audit_send_def h_example_def world_of_def
        NLMSG_SPACE_def NLMSG_LENGTH_def NLMSG_HDRLEN_def NLMSG_ALIGN_def NLMSG_ALIGNTO_def
        memcpy_def sendto_loop.simps sendto_def sizeof_nlmsghdr_def EINTR_def EPROTO_def
        audit_send_out_def word_sless_alt NLM_F_REQUEST_def NLM_F_ACK_def)

text \<open>
  Claim C3, where the code departs from it. From a fresh counter the calls issue 1, 2
  and so on (\<open>audit_send_issues_next_sequence\<close>), until the counter holds 32767. The next call
  increments it to \<open>-32768\<close>, frames that as \<^verbatim>\<open>nlmsg_seq = 0xFFFF8000\<close>, is
  acknowledged and returns \<open>-32768\<close>; only then, at \<^verbatim>\<open>out:\<close>, is the counter reset
  to 0. No call issues sequence 0, and this one issues a negative number.
\<close>

theorem sequence_rolls_over_to_negative:
  "audit_send h_example 3 1001 None 4
     (world_of 32767 [Tx_take 36] [Rx_dgram (netlink_ack 4294934528 0)])
     = Returns (- 32768)
         \<lparr>sequence = 0, tx_script = [], rx_queue = [],
          syscalls = [Sendto 3 \<lparr>nlmsg_len = 20, nlmsg_type = 1001, nlmsg_flags = 5,
                                nlmsg_seq = 4294934528, nlmsg_pid = 0\<rparr> (replicate 4 0) 20,
                      Recvfrom 3 2, Recvfrom 3 0]\<rparr>"
  by (simp add: audit_send_def h_example_def world_of_def netlink_ack_def
        NLMSG_SPACE_def NLMSG_LENGTH_def NLMSG_HDRLEN_def NLMSG_ALIGN_def NLMSG_ALIGNTO_def
        memcpy_def sendto_loop.simps sendto_def sizeof_nlmsghdr_def EINTR_def EPROTO_def
        get_ack_def audit_get_reply_def recv_loop.simps recvfrom_def MSG_PEEK_def MSG_DONTWAIT_def
        sizeof_sockaddr_nl_def set_internal_fields_def NLMSG_OK_def NLMSG_ERROR_def
        rep_uninit_def audit_send_out_def word_sless_alt NLM_F_REQUEST_def NLM_F_ACK_def)

section \<open>\<^verbatim>\<open>audit_set_logsplit\<close>: the check of \<^verbatim>\<open>enabled\<close>\<close>

text \<open>
  Claim C8. For every value of \<^verbatim>\<open>enabled\<close> other than \<^verbatim>\<open>AUDIT_LOGSPLIT_OFF\<close> and
  \<^verbatim>\<open>AUDIT_LOGSPLIT_ON\<close>, \<^verbatim>\<open>audit_set_logsplit\<close> returns \<^verbatim>\<open>-EINVAL\<close> and leaves
  the whole state as it was: no socket call is logged, the scripts of the socket are
  untouched and the sequence counter keeps its value. This holds for every descriptor
  and wait mode.
\<close>

theorem audit_set_logsplit_invalid_enabled:
  assumes "enabled \<noteq> AUDIT_LOGSPLIT_OFF h" and "enabled \<noteq> AUDIT_LOGSPLIT_ON h"
  shows "audit_set_logsplit h fd enabled wmode w = Returns (- EINVAL) w"
  using assms by (simp add: audit_set_logsplit_def)

theorem audit_set_logsplit_invalid_enabled_witness:
  "7 \<noteq> AUDIT_LOGSPLIT_OFF h_example \<and> 7 \<noteq> AUDIT_LOGSPLIT_ON h_example \<and>
   audit_set_logsplit h_example 3 7 WAIT_YES (world_of 5 [Tx_take 36] [Rx_dgram (netlink_ack 6 0)])
     = Returns (- EINVAL) (world_of 5 [Tx_take 36] [Rx_dgram (netlink_ack 6 0)])"
proof -
  have a: "7 \<noteq> AUDIT_LOGSPLIT_OFF h_example" and b: "7 \<noteq> AUDIT_LOGSPLIT_ON h_example"
    by (simp_all add: h_example_def)
  from audit_set_logsplit_invalid_enabled [OF a b] a b show ?thesis by simp
qed

end
